theory Spec2Isabelle
  imports
    Main
    "HOL-Library.Char_ord"
    "HOL-Library.List_Lexorder"
    "HOL-Library.AList"
begin

section \<open>JavaScript values and built-ins used by the Sentry MCP server\<close>

text \<open>
  The server receives already parsed JSON and passes it around as \<^verbatim>\<open>any\<close>.
  A value is modelled by the datatype below; \<open>JUndefined\<close> is the value a property read
  yields when the property is missing, and \<open>JNative\<close> is a native function, known by its
  name, as a value inherits it from a built-in prototype. Numbers are integers (fractions
  are outside the model). An object is its list of own properties in
  insertion order (the runtime lists keys that are array indices first; nothing below
  depends on the order of the keys of an object).
\<close>

datatype json =
    JUndefined
  | JNull
  | JBool bool
  | JNum int
  | JStr string
  | JArr "json list"
  | JObj "(string \<times> json) list"
  | JNative string

type_synonym obj = "(string \<times> json) list"

abbreviation nl :: string where "nl \<equiv> [CHR 0x0A]"

text \<open>Decimal rendering of array indices, lengths and integer numbers.\<close>

fun show_nat :: "nat \<Rightarrow> string" where
  "show_nat n =
     (if n < 10 then [''0123456789'' ! n]
      else show_nat (n div 10) @ [''0123456789'' ! (n mod 10)])"

declare show_nat.simps [simp del]

definition show_int :: "int \<Rightarrow> string" where
  "show_int i = (if i < 0 then ''-'' @ show_nat (nat (- i)) else show_nat (nat i))"

text \<open>\<^verbatim>\<open>Array.prototype.join\<close> on an array of strings.\<close>

fun join :: "string \<Rightarrow> string list \<Rightarrow> string" where
  "join sep [] = []"
| "join sep [x] = x"
| "join sep (x # y # ys) = x @ sep @ join sep (y # ys)"

text \<open>Truthiness, as tested by \<^verbatim>\<open>if (v)\<close>, \<^verbatim>\<open>a && b\<close> and \<^verbatim>\<open>a || b\<close>.\<close>

fun truthy :: "json \<Rightarrow> bool" where
  "truthy JUndefined = False"
| "truthy JNull = False"
| "truthy (JBool b) = b"
| "truthy (JNum i) = (i \<noteq> 0)"
| "truthy (JStr s) = (s \<noteq> [])"
| "truthy (JArr xs) = True"
| "truthy (JObj kvs) = True"
| "truthy (JNative name) = True"

definition js_or :: "json \<Rightarrow> json \<Rightarrow> json" where
  "js_or a b = (if truthy a then a else b)"

fun nullish :: "json \<Rightarrow> bool" where
  "nullish JUndefined = True"
| "nullish JNull = True"
| "nullish v = False"

text \<open>\<^verbatim>\<open>String(v)\<close>, which is also what a template literal applies to an interpolated value.\<close>

fun toStr :: "json \<Rightarrow> string" where
  "toStr JUndefined = ''undefined''"
| "toStr JNull = ''null''"
| "toStr (JBool b) = (if b then ''true'' else ''false'')"
| "toStr (JNum i) = show_int i"
| "toStr (JStr s) = s"
| "toStr (JArr xs) = join '','' (map (\<lambda>x. if nullish x then [] else toStr x) xs)"
| "toStr (JObj kvs) = ''[object Object]''"
| "toStr (JNative name) = ''function '' @ name @ ''() { [native code] }''"

text \<open>
  The values on which \<open>toStr\<close> is what \<^verbatim>\<open>String\<close> returns. A number has to be an integer
  that a double holds exactly (from \<open>10^21\<close> on \<^verbatim>\<open>String\<close> prints an exponent). An object
  must not have an own property named \<^verbatim>\<open>toString\<close>: parsed JSON holds no function, and
  \<^verbatim>\<open>String\<close> throws a \<^verbatim>\<open>TypeError\<close> when the \<^verbatim>\<open>toString\<close> of an object is not callable.
  An array prints its elements, so they have to be such values too.
\<close>

fun printable :: "json \<Rightarrow> bool" where
  "printable (JNum i) = (\<bar>i\<bar> < 2 ^ 53)"
| "printable (JArr xs) = list_all printable xs"
| "printable (JObj kvs) = (map_of kvs ''toString'' = None)"
| "printable v = True"

text \<open>The conversion \<^verbatim>\<open>Array.prototype.join\<close> applies to one element.\<close>

definition cell :: "json \<Rightarrow> string" where
  "cell v = (if nullish v then [] else toStr v)"

text \<open>
  Own enumerable properties, as seen by \<^verbatim>\<open>Object.keys\<close> and \<^verbatim>\<open>Object.assign\<close>: the
  properties of an object, the indices of an array, the indices of a string.
\<close>

fun own_entries :: "json \<Rightarrow> obj" where
  "own_entries (JObj kvs) = kvs"
| "own_entries (JArr xs) = zip (map show_nat [0..<length xs]) xs"
| "own_entries (JStr s) = zip (map show_nat [0..<length s]) (map (\<lambda>c. JStr [c]) s)"
| "own_entries v = []"

definition object_keys :: "json \<Rightarrow> string list" where
  "object_keys v = map fst (own_entries v)"

text \<open>
  The members every value inherits from \<^verbatim>\<open>Object.prototype\<close>. A read of one of these
  names on a value that has no own property of the name yields the inherited member: a
  native function, which for \<^verbatim>\<open>constructor\<close> is the constructor of the value's kind, and for
  \<^verbatim>\<open>__proto__\<close> the prototype object, rendered here as an empty object (an empty array for
  an array). What arrays, strings, numbers and Booleans inherit beyond these names
  (\<^verbatim>\<open>map\<close>, \<^verbatim>\<open>trim\<close>, \<^verbatim>\<open>toFixed\<close>, ...) is outside the model: the theorems on the lookup of a
  caller-supplied name are about sources that are plain objects.
\<close>

definition object_prototype_names :: "string list" where
  "object_prototype_names =
     [''constructor'', ''__defineGetter__'', ''__defineSetter__'', ''hasOwnProperty'',
      ''__lookupGetter__'', ''__lookupSetter__'', ''isPrototypeOf'', ''propertyIsEnumerable'',
      ''toString'', ''valueOf'', ''__proto__'', ''toLocaleString'']"

fun constructor_name :: "json \<Rightarrow> string" where
  "constructor_name (JArr xs) = ''Array''"
| "constructor_name (JStr s) = ''String''"
| "constructor_name (JNum i) = ''Number''"
| "constructor_name (JBool b) = ''Boolean''"
| "constructor_name (JNative name) = ''Function''"
| "constructor_name v = ''Object''"

fun prototype_of :: "json \<Rightarrow> json" where
  "prototype_of (JArr xs) = JArr []"
| "prototype_of v = JObj []"

definition inherited :: "json \<Rightarrow> string \<Rightarrow> json" where
  "inherited v k =
     (if k = ''constructor'' then JNative (constructor_name v)
      else if k = ''__proto__'' then prototype_of v
      else if k \<in> set object_prototype_names then JNative k
      else JUndefined)"

text \<open>
  A property read \<^verbatim>\<open>v[k]\<close> on a value that is not null or undefined: the own property of
  that name when there is one (also when its value is undefined), the inherited member
  otherwise.
\<close>

definition own_prop :: "json \<Rightarrow> string \<Rightarrow> json" where
  "own_prop v k = (case map_of (own_entries v) k of Some x \<Rightarrow> x | None \<Rightarrow> inherited v k)"

fun get_prop :: "json \<Rightarrow> string \<Rightarrow> json" where
  "get_prop (JArr xs) k = (if k = ''length'' then JNum (int (length xs)) else own_prop (JArr xs) k)"
| "get_prop (JStr s) k = (if k = ''length'' then JNum (int (length s)) else own_prop (JStr s) k)"
| "get_prop v k = own_prop v k"

text \<open>
  \<^verbatim>\<open>target[k] = v\<close> and \<^verbatim>\<open>Object.assign(target, source)\<close> on an object that an object
  literal created. An assignment to \<^verbatim>\<open>__proto__\<close> runs the setter inherited from
  \<^verbatim>\<open>Object.prototype\<close>: it creates no own property. The prototype that the setter installs
  is not modelled: of the targets of \<^verbatim>\<open>Object.assign\<close> the formatter reads the own
  properties only.
\<close>

definition set_prop :: "obj \<Rightarrow> string \<Rightarrow> json \<Rightarrow> obj" where
  "set_prop target k v = (if k = ''__proto__'' then target else AList.update k v target)"

definition object_assign :: "obj \<Rightarrow> json \<Rightarrow> obj" where
  "object_assign target source = foldl (\<lambda>t (k, v). set_prop t k v) target (own_entries source)"

section \<open>BaseFormatter: the rendering primitives\<close>

datatype FormatType = markdown | plain

datatype ViewType = summary | detailed

record FormatOptions =
  format :: FormatType
  view :: ViewType

definition isMarkdown :: "FormatOptions \<Rightarrow> bool" where
  "isMarkdown opts = (format opts = markdown)"

definition isDetailed :: "FormatOptions \<Rightarrow> bool" where
  "isDetailed opts = (view opts = detailed)"

definition createHeader :: "FormatOptions \<Rightarrow> string \<Rightarrow> nat \<Rightarrow> string" where
  "createHeader opts title level =
     (if isMarkdown opts then replicate level (CHR ''#'') @ '' '' @ title @ nl @ nl
      else title @ nl @ nl)"

definition createTable :: "FormatOptions \<Rightarrow> string list \<Rightarrow> string list list \<Rightarrow> string" where
  "createTable opts headers rows =
     (if isMarkdown opts then
        (let table = ''| '' @ join '' | '' headers @ '' |'' @ nl;
             table = table @ ''|'' @ join ''|'' (map (\<lambda>_. ''----'') headers) @ ''|'' @ nl;
             table = foldl (\<lambda>table row. table @ ''| '' @ join '' | '' row @ '' |'' @ nl) table rows
         in table @ nl)
      else
        (let result = [];
             result = foldl (\<lambda>result row. result @ join '' | '' row @ nl) result rows
         in result @ nl))"

definition createList :: "FormatOptions \<Rightarrow> string list \<Rightarrow> bool \<Rightarrow> string" where
  "createList opts items ordered =
     (if isMarkdown opts then
        join nl (map (\<lambda>(index, item).
                   if ordered then show_nat (index + 1) @ ''. '' @ item else ''- '' @ item)
                 (enumerate 0 items)) @ nl @ nl
      else
        join nl (map (\<lambda>(index, item).
                   if ordered then show_nat (index + 1) @ ''. '' @ item else ''- '' @ item)
                 (enumerate 0 items)) @ nl @ nl)"

definition createBold :: "FormatOptions \<Rightarrow> string \<Rightarrow> string" where
  "createBold opts text = (if isMarkdown opts then ''**'' @ text @ ''**'' else text)"


subsection \<open>Recording which primitives a renderer invokes\<close>

text \<open>
  The collection renderers are modelled with a log of the primitives they call, so that
  "this branch builds no table and no list" is a statement about the log. A traced value
  is the value together with the calls made to compute it, in order.
\<close>

datatype primitive = CreateHeader | CreateTable | CreateList | CreateBold

type_synonym 'a traced = "'a \<times> primitive list"

definition returnT :: "'a \<Rightarrow> 'a traced" where
  "returnT x = (x, [])"

definition bindT :: "'a traced \<Rightarrow> ('a \<Rightarrow> 'b traced) \<Rightarrow> 'b traced" where
  "bindT m f = (case m of (x, calls) \<Rightarrow> (case f x of (y, calls') \<Rightarrow> (y, calls @ calls')))"

fun mapT :: "('a \<Rightarrow> 'b traced) \<Rightarrow> 'a list \<Rightarrow> 'b list traced" where
  "mapT f [] = returnT []"
| "mapT f (x # xs) = bindT (f x) (\<lambda>y. bindT (mapT f xs) (\<lambda>ys. returnT (y # ys)))"

definition createHeaderT :: "FormatOptions \<Rightarrow> string \<Rightarrow> nat \<Rightarrow> string traced" where
  "createHeaderT opts title level = (createHeader opts title level, [CreateHeader])"

definition createTableT :: "FormatOptions \<Rightarrow> string list \<Rightarrow> string list list \<Rightarrow> string traced" where
  "createTableT opts headers rows = (createTable opts headers rows, [CreateTable])"

definition createListT :: "FormatOptions \<Rightarrow> string list \<Rightarrow> bool \<Rightarrow> string traced" where
  "createListT opts items ordered = (createList opts items ordered, [CreateList])"

definition createBoldT :: "FormatOptions \<Rightarrow> string \<Rightarrow> string traced" where
  "createBoldT opts s = (createBold opts s, [CreateBold])"

section \<open>ProjectFormatter\<close>

text \<open>
  Modelled from the spec: the type \<^verbatim>\<open>SentryProject\<close>, which the formatter imports from
  a types module that is not among the sources. A project has an id, a name, a slug, an
  optional platform, an ordered list of teams with a name each, an optional list of
  environment names and an optional list of feature names; these are also the fields the
  formatter reads.
\<close>

record Team =
  team_name :: string

record SentryProject =
  proj_id :: string
  proj_name :: string
  proj_slug :: string
  proj_platform :: "string option"
  proj_teams :: "Team list"
  proj_environments :: "string list option"
  proj_features :: "string list option"

text \<open>\<^verbatim>\<open>s || d\<close> for an optional string: a missing or empty string gives the default.\<close>

definition or_default :: "string option \<Rightarrow> string \<Rightarrow> string" where
  "or_default s d = (case s of None \<Rightarrow> d | Some x \<Rightarrow> if x = [] then d else x)"

definition project_row :: "SentryProject \<Rightarrow> string list" where
  "project_row project =
     [proj_id project,
      proj_name project,
      proj_slug project,
      or_default (proj_platform project) ''N/A'',
      join '', '' (map team_name (proj_teams project)),
      or_default (map_option (join '', '') (proj_environments project)) ''None'',
      or_default (map_option (join '', '') (proj_features project)) ''None'']"

definition project_lines :: "SentryProject \<Rightarrow> string" where
  "project_lines project =
     ''ID: '' @ proj_id project @ nl @
     ''Name: '' @ proj_name project @ nl @
     ''Slug: '' @ proj_slug project @ nl @
     ''Platform: '' @ or_default (proj_platform project) ''N/A'' @ nl @
     ''Teams: '' @ join '', '' (map team_name (proj_teams project)) @ nl @
     ''Environments: '' @
        or_default (map_option (join '', '') (proj_environments project)) ''None'' @ nl @
     ''Features: '' @
        or_default (map_option (join '', '') (proj_features project)) ''None'' @ nl @ nl"

definition formatDetailed :: "FormatOptions \<Rightarrow> SentryProject list \<Rightarrow> string traced" where
  "formatDetailed opts projects =
     bindT (createHeaderT opts ''Sentry Projects'' 1) (\<lambda>output.
     bindT (if isMarkdown opts then
              bindT (createTableT opts
                       [''ID'', ''Name'', ''Slug'', ''Platform'', ''Teams'', ''Environments'', ''Features'']
                       (map project_row projects))
                    (\<lambda>table. returnT (output @ table))
            else returnT (foldl (\<lambda>output project. output @ project_lines project) output projects))
       (\<lambda>output.
     bindT (createHeaderT opts ''Summary'' 2) (\<lambda>header.
     returnT (output @ header @ ''Total Projects: '' @ show_nat (length projects) @ nl))))"

definition formatSummary :: "FormatOptions \<Rightarrow> SentryProject list \<Rightarrow> string traced" where
  "formatSummary opts projects =
     bindT (createHeaderT opts ''Sentry Projects'' 1) (\<lambda>output.
     bindT (mapT (\<lambda>project.
              bindT (createBoldT opts (proj_name project)) (\<lambda>bold.
              returnT (bold @ '' ('' @ proj_slug project @ ''): ID '' @ proj_id project)))
            projects) (\<lambda>items.
     bindT (createListT opts items False) (\<lambda>list.
     returnT (output @ list @ ''Total Projects: '' @ show_nat (length projects)))))"

definition formatData :: "FormatOptions \<Rightarrow> SentryProject list \<Rightarrow> string traced" where
  "formatData opts projects =
     (if isDetailed opts then formatDetailed opts projects else formatSummary opts projects)"

section \<open>IssueFormatter: the list entry points\<close>

text \<open>
  \<open>formatIssueList\<close> and \<open>formatEventList\<close> decide between the empty case and the two
  renderers of a non-empty collection. Those renderers are arguments here: no property
  below depends on what they print.
\<close>

definition formatIssueList ::
  "(FormatOptions \<Rightarrow> 'issue list \<Rightarrow> string \<Rightarrow> string traced) \<Rightarrow>
   (FormatOptions \<Rightarrow> 'issue list \<Rightarrow> string \<Rightarrow> string traced) \<Rightarrow>
   FormatOptions \<Rightarrow> 'issue list \<Rightarrow> string \<Rightarrow> string traced" where
  "formatIssueList formatDetailedIssueList formatSummaryIssueList opts issues projectSlug =
     (if length issues = 0 then
        bindT (createHeaderT opts (''Issues for Project: '' @ projectSlug) 1) (\<lambda>header.
        returnT (header @ ''No issues found for this project.'' @ nl))
      else if isDetailed opts then formatDetailedIssueList opts issues projectSlug
      else formatSummaryIssueList opts issues projectSlug)"

definition formatEventList ::
  "(FormatOptions \<Rightarrow> 'event list \<Rightarrow> string \<Rightarrow> string traced) \<Rightarrow>
   (FormatOptions \<Rightarrow> 'event list \<Rightarrow> string \<Rightarrow> string traced) \<Rightarrow>
   FormatOptions \<Rightarrow> 'event list \<Rightarrow> string \<Rightarrow> string traced" where
  "formatEventList formatDetailedEventList formatSummaryEventList opts events issueTitle =
     (if length events = 0 then
        bindT (createHeaderT opts (''Events for '' @ issueTitle) 1) (\<lambda>header.
        returnT (header @ ''No events found for this issue.'' @ nl))
      else if isDetailed opts then formatDetailedEventList opts events issueTitle
      else formatSummaryEventList opts events issueTitle)"

section \<open>IssueFormatter: formatSingleEvent\<close>

text \<open>
  The event is \<^verbatim>\<open>any\<close> in the source. The records below give it the shape the formatter
  relies on: a list of tags, a list of entries whose stack trace entry holds a list of
  frames, source-context lines as pairs of a line number and a text. A field that may be
  missing is an option when it is a list and \<open>JUndefined\<close> when it is a free-form value.
\<close>

record Tag =
  tag_key :: json
  tag_value :: json

record Frame =
  frame_filename :: json
  frame_lineNo :: json
  frame_function :: json
  frame_inApp :: json
  frame_context :: "(json \<times> string) list option"
  frame_vars :: json

record EntryData =
  data_frames :: "Frame list option"

record Entry =
  entry_type :: json
  entry_data :: "EntryData option"

record Event =
  event_title :: json
  event_metadata :: json
  event_platform :: json
  event_dateCreated :: json
  event_culprit :: json
  event_tags :: "Tag list option"
  event_context :: json
  event_contexts :: json
  event_extra :: json
  event_entries :: "Entry list option"
  event_user :: json

text \<open>\<^verbatim>\<open>v?.k\<close>, \<^verbatim>\<open>a === b\<close> on values of two different places of a payload (two objects
  or arrays are then never the same reference), \<^verbatim>\<open>typeof v === "object"\<close>,
  \<^verbatim>\<open>names.includes(v)\<close> and \<^verbatim>\<open>s.trim()\<close>. A character of a string is a code unit below
  256; of these, \<^verbatim>\<open>trim\<close> strips the six ASCII white space characters and the no-break
  space.\<close>

definition opt_chain :: "json \<Rightarrow> string \<Rightarrow> json" where
  "opt_chain v k = (if nullish v then JUndefined else get_prop v k)"

fun strict_eq :: "json \<Rightarrow> json \<Rightarrow> bool" where
  "strict_eq (JArr xs) b = False"
| "strict_eq (JObj kvs) b = False"
| "strict_eq a b = (a = b)"

fun typeof_object :: "json \<Rightarrow> bool" where
  "typeof_object JNull = True"
| "typeof_object (JArr xs) = True"
| "typeof_object (JObj kvs) = True"
| "typeof_object v = False"

fun array_includes :: "string list \<Rightarrow> json \<Rightarrow> bool" where
  "array_includes names (JStr s) = (s \<in> set names)"
| "array_includes names v = False"

definition is_space :: "char \<Rightarrow> bool" where
  "is_space c =
     (c \<in> set [CHR '' '', CHR 0x09, CHR 0x0A, CHR 0x0B, CHR 0x0C, CHR 0x0D, CHR 0xA0])"

definition trim :: "string \<Rightarrow> string" where
  "trim s = rev (dropWhile is_space (rev (dropWhile is_space s)))"

text \<open>\<^verbatim>\<open>xs.slice(-n)\<close> and \<^verbatim>\<open>xs.indexOf(x)\<close>.\<close>

definition slice_last :: "nat \<Rightarrow> 'a list \<Rightarrow> 'a list" where
  "slice_last n xs = drop (length xs - n) xs"

fun indexOf :: "'a list \<Rightarrow> 'a \<Rightarrow> int" where
  "indexOf [] x = - 1"
| "indexOf (y # ys) x =
     (if y = x then 0 else (let i = indexOf ys x in if i < 0 then - 1 else i + 1))"

subsection \<open>Error overview\<close>

definition overview_section :: "FormatOptions \<Rightarrow> Event \<Rightarrow> string" where
  "overview_section opts event =
     createHeader opts ''Error Overview'' 2 @
     (let basicInfo =
        [createBold opts ''Title'' @ '': '' @
           toStr (js_or (js_or (event_title event) (opt_chain (event_metadata event) ''title''))
                        (JStr ''N/A'')),
         createBold opts ''Platform'' @ '': '' @ toStr (js_or (event_platform event) (JStr ''N/A'')),
         createBold opts ''Date'' @ '': '' @ toStr (event_dateCreated event),
         createBold opts ''Culprit'' @ '': '' @ toStr (js_or (event_culprit event) (JStr ''N/A''))]
      in createList opts basicInfo False)"

subsection \<open>Environment\<close>

definition importantTags :: "string list" where
  "importantTags = [''environment'', ''level'', ''release'', ''server_name'', ''runtime'']"

definition filteredTags :: "Tag list \<Rightarrow> Tag list" where
  "filteredTags tags = filter (\<lambda>tag. array_includes importantTags (tag_key tag)) tags"

definition environment_section :: "FormatOptions \<Rightarrow> Event \<Rightarrow> string" where
  "environment_section opts event =
     (case event_tags event of
        None \<Rightarrow> []
      | Some tags \<Rightarrow>
          if length tags > 0 then
            createHeader opts ''Environment'' 2 @
            (if length (filteredTags tags) > 0 then
               (if isMarkdown opts then
                  createTable opts [''Key'', ''Value'']
                    (map (\<lambda>tag. [cell (tag_key tag), cell (tag_value tag)]) (filteredTags tags))
                else
                  createList opts
                    (map (\<lambda>tag. toStr (tag_key tag) @ '': '' @ toStr (tag_value tag))
                       (filteredTags tags)) False)
             else [])
          else [])"

subsection \<open>Additional data\<close>

definition stacktraceEntry :: "Event \<Rightarrow> Entry option" where
  "stacktraceEntry event =
     (case event_entries event of
        None \<Rightarrow> None
      | Some entries \<Rightarrow>
          if length entries > 0
          then find (\<lambda>entry. strict_eq (entry_type entry) (JStr ''stacktrace'')) entries
          else None)"

text \<open>The frames of the stack trace entry, when the entry, its data and its frames are there.\<close>

definition stacktraceFrames :: "Event \<Rightarrow> Frame list option" where
  "stacktraceFrames event =
     (case stacktraceEntry event of
        None \<Rightarrow> None
      | Some entry \<Rightarrow>
          (case entry_data entry of
             None \<Rightarrow> None
           | Some data \<Rightarrow> data_frames data))"

definition frameWithVars :: "Frame list \<Rightarrow> Frame option" where
  "frameWithVars frames =
     find (\<lambda>frame. truthy (frame_vars frame) \<and> length (object_keys (frame_vars frame)) > 0)
       (rev frames)"

definition assign_frame_vars :: "obj \<Rightarrow> Frame \<Rightarrow> obj" where
  "assign_frame_vars additionalData frame =
     (let vars = frame_vars frame;
          additionalData =
            (if truthy (get_prop vars ''context'')
             then object_assign additionalData (get_prop vars ''context'')
             else additionalData);
          rec = get_prop vars ''record''
      in if truthy rec \<and> typeof_object rec then
           (let additionalData =
                  (if truthy (get_prop rec ''context'')
                   then object_assign additionalData (get_prop rec ''context'')
                   else additionalData);
                additionalData =
                  (if truthy (get_prop rec ''extra'')
                   then object_assign additionalData (get_prop rec ''extra'')
                   else additionalData)
            in additionalData)
         else additionalData)"

definition collectAdditionalData :: "Event \<Rightarrow> obj" where
  "collectAdditionalData event =
     (let additionalData = [];
          additionalData =
            (if truthy (event_context event) \<and> length (object_keys (event_context event)) > 0
             then object_assign additionalData (event_context event)
             else additionalData);
          additionalData =
            (if truthy (event_contexts event) \<and> length (object_keys (event_contexts event)) > 0
             then object_assign additionalData (event_contexts event)
             else additionalData);
          additionalData =
            (if truthy (event_extra event) \<and> length (object_keys (event_extra event)) > 0
             then object_assign additionalData (event_extra event)
             else additionalData)
      in (case stacktraceFrames event of
            None \<Rightarrow> additionalData
          | Some frames \<Rightarrow>
              (case frameWithVars frames of
                 None \<Rightarrow> additionalData
               | Some frame \<Rightarrow> assign_frame_vars additionalData frame)))"

text \<open>\<^verbatim>\<open>JSON.stringify(v, null, 2)\<close> is a built-in of the runtime: the argument \<open>stringify\<close>.\<close>

definition additional_data_section ::
  "(json \<Rightarrow> string) \<Rightarrow> FormatOptions \<Rightarrow> Event \<Rightarrow> string" where
  "additional_data_section stringify opts event =
     (let additionalData = collectAdditionalData event
      in if length (object_keys (JObj additionalData)) > 0 then
           createHeader opts ''Additional Data'' 2 @
           ''```json'' @ nl @ stringify (JObj additionalData) @ nl @ ''```'' @ nl @ nl
         else [])"

subsection \<open>Stack trace\<close>

text \<open>
  The frames of a parsed payload are distinct objects, and \<^verbatim>\<open>frames.indexOf(frame)\<close>
  compares references. A reference is modelled by the position at which the frame was
  allocated: \<open>allocate\<close> pairs each frame with its reference.
\<close>

definition allocate :: "'a list \<Rightarrow> (nat \<times> 'a) list" where
  "allocate xs = enumerate 0 xs"

definition appFrames :: "Frame list \<Rightarrow> (nat \<times> Frame) list" where
  "appFrames frames = filter (\<lambda>(ref, frame). truthy (frame_inApp frame)) (allocate frames)"

definition framesToShow :: "Frame list \<Rightarrow> (nat \<times> Frame) list" where
  "framesToShow frames =
     (if length (appFrames frames) > 0 then slice_last 5 (appFrames frames)
      else slice_last 10 (allocate frames))"

definition frameNum :: "Frame list \<Rightarrow> nat \<times> Frame \<Rightarrow> int" where
  "frameNum frames shown = indexOf (map fst (allocate frames)) (fst shown) + 1"

definition render_frame :: "Frame list \<Rightarrow> nat \<times> Frame \<Rightarrow> string" where
  "render_frame frames shown =
     (let frame = snd shown in
      ''**Frame '' @ show_int (frameNum frames shown) @ ''**: `'' @
        toStr (frame_filename frame) @ '':'' @ toStr (frame_lineNo frame) @ ''`'' @ nl @
      ''- Function: `'' @ toStr (js_or (frame_function frame) (JStr ''N/A'')) @ ''`'' @ nl @
      (case frame_context frame of
         None \<Rightarrow> []
       | Some ctx \<Rightarrow>
           if length ctx > 0 then
             (case find (\<lambda>line. strict_eq (fst line) (frame_lineNo frame)) ctx of
                None \<Rightarrow> []
              | Some contextLine \<Rightarrow> ''- Code: `'' @ trim (snd contextLine) @ ''`'' @ nl)
           else []) @
      nl)"

definition stack_trace_section :: "FormatOptions \<Rightarrow> Event \<Rightarrow> string" where
  "stack_trace_section opts event =
     (case stacktraceFrames event of
        None \<Rightarrow> []
      | Some frames \<Rightarrow>
          createHeader opts ''Stack Trace'' 2 @
          foldl (\<lambda>output shown. output @ render_frame frames shown) [] (framesToShow frames) @
          (if length (appFrames frames) < length frames then
             ''*Showing '' @ show_nat (length (framesToShow frames)) @
             '' most relevant frames ('' @ show_nat (length frames) @ '' total)*'' @ nl @ nl
           else []))"

subsection \<open>User information\<close>

definition user_section :: "FormatOptions \<Rightarrow> Event \<Rightarrow> string" where
  "user_section opts event =
     (let user = event_user event in
      if truthy user \<and> length (filter (\<lambda>key. truthy (get_prop user key)) (object_keys user)) > 0
      then
        createHeader opts ''User Information'' 2 @
        (let userDetails = [];
             userDetails =
               (if truthy (get_prop user ''id'')
                then userDetails @ [createBold opts ''ID'' @ '': '' @ toStr (get_prop user ''id'')]
                else userDetails);
             userDetails =
               (if truthy (get_prop user ''email'')
                then userDetails @
                  [createBold opts ''Email'' @ '': '' @ toStr (get_prop user ''email'')]
                else userDetails);
             userDetails =
               (if truthy (get_prop user ''username'')
                then userDetails @
                  [createBold opts ''Username'' @ '': '' @ toStr (get_prop user ''username'')]
                else userDetails);
             userDetails =
               (if truthy (get_prop user ''ip_address'')
                then userDetails @
                  [createBold opts ''IP Address'' @ '': '' @ toStr (get_prop user ''ip_address'')]
                else userDetails)
         in if length userDetails > 0 then createList opts userDetails False else [])
      else [])"

definition formatSingleEvent ::
  "(json \<Rightarrow> string) \<Rightarrow> FormatOptions \<Rightarrow> Event \<Rightarrow> string \<Rightarrow> string" where
  "formatSingleEvent stringify opts event eventId =
     createHeader opts (''Event Details: '' @ eventId) 1 @
     overview_section opts event @
     environment_section opts event @
     additional_data_section stringify opts event @
     stack_trace_section opts event @
     user_section opts event"

section \<open>The extract_issue_context_data handler: context extraction\<close>

text \<open>
  \<open>uniqueValues\<close> is a \<^verbatim>\<open>Record<string, Set<string>>\<close>. A set of strings is the list
  of its members in insertion order, which is what \<^verbatim>\<open>Array.from\<close> yields. The handler
  creates the set of every requested field before the loop, so a set read in the loop is
  always there; \<open>members\<close> reads it.
\<close>

type_synonym unique_sets = "string \<rightharpoonup> string list"

definition set_add :: "string \<Rightarrow> string list \<Rightarrow> string list" where
  "set_add v s = (if v \<in> set s then s else s @ [v])"

definition members :: "unique_sets \<Rightarrow> string \<Rightarrow> string list" where
  "members uniqueValues field = (case uniqueValues field of None \<Rightarrow> [] | Some s \<Rightarrow> s)"

text \<open>The loop \<^verbatim>\<open>for (const source of sources)\<close> for one field, with its \<^verbatim>\<open>break\<close>.\<close>

fun extract_field :: "json list \<Rightarrow> string \<Rightarrow> obj \<times> unique_sets \<Rightarrow> obj \<times> unique_sets" where
  "extract_field [] field (eventData, uniqueValues) = (eventData, uniqueValues)"
| "extract_field (source # sources) field (eventData, uniqueValues) =
     (if truthy source \<and> get_prop source field \<noteq> JUndefined
         \<and> get_prop (JObj eventData) field = JUndefined
      then (set_prop eventData field (get_prop source field),
            uniqueValues(field \<mapsto>
              set_add (toStr (get_prop source field)) (members uniqueValues field)))
      else extract_field sources field (eventData, uniqueValues))"

text \<open>The record an event starts with, and the four sources in the order they are tried.\<close>

definition initial_eventData :: "json \<Rightarrow> obj" where
  "initial_eventData event =
     [(''event_id'', get_prop event ''id''), (''timestamp'', get_prop event ''dateCreated'')]"

definition event_sources :: "json \<Rightarrow> json list" where
  "event_sources event =
     [get_prop event ''contexts'', get_prop event ''extra'', get_prop event ''context'', event]"

definition extract_event ::
  "string list \<Rightarrow> json \<Rightarrow> unique_sets \<Rightarrow> obj \<times> unique_sets" where
  "extract_event extract_fields event uniqueValues =
     fold (extract_field (event_sources event)) extract_fields
       (initial_eventData event, uniqueValues)"

definition hasData :: "string list \<Rightarrow> obj \<Rightarrow> bool" where
  "hasData extract_fields eventData =
     list_ex (\<lambda>field. get_prop (JObj eventData) field \<noteq> JUndefined) extract_fields"

text \<open>The body of \<^verbatim>\<open>events.forEach\<close>; an event is a value that is not null or undefined.\<close>

definition process_event ::
  "string list \<Rightarrow> json \<Rightarrow> obj list \<times> unique_sets \<Rightarrow> obj list \<times> unique_sets" where
  "process_event extract_fields event state =
     (case state of (extractedData, uniqueValues) \<Rightarrow>
        (case extract_event extract_fields event uniqueValues of (eventData, uniqueValues) \<Rightarrow>
           (if hasData extract_fields eventData then extractedData @ [eventData]
            else extractedData,
            uniqueValues)))"

text \<open>
  \<^verbatim>\<open>uniqueValues[field] = new Set()\<close> on the object literal \<open>uniqueValues\<close>. For the name
  \<^verbatim>\<open>__proto__\<close> the assignment runs the inherited setter and creates no own property, so
  that \<^verbatim>\<open>Object.keys\<close> does not list the name afterwards. The setter makes the new set
  the prototype of \<open>uniqueValues\<close>; this is not modelled.
\<close>

definition new_set :: "string \<Rightarrow> unique_sets \<Rightarrow> unique_sets" where
  "new_set field uniqueValues =
     (if field = ''__proto__'' then uniqueValues else uniqueValues(field \<mapsto> []))"

record extraction_result =
  extracted_data :: "obj list"
  unique_values :: "string \<rightharpoonup> string list"
  total_events :: nat
  events_with_data :: nat

definition extract_context_data :: "json list \<Rightarrow> string list \<Rightarrow> extraction_result" where
  "extract_context_data events extract_fields =
     (let uniqueValues = fold new_set extract_fields Map.empty
      in (case fold (process_event extract_fields) events ([], uniqueValues) of
            (extractedData, uniqueValues) \<Rightarrow>
              \<lparr>extracted_data = extractedData,
               unique_values = (\<lambda>field. map_option sort (uniqueValues field)),
               total_events = length events,
               events_with_data = length extractedData\<rparr>))"

subsection \<open>Field resolution as the specification words it\<close>

text \<open>
  A source defines a field when the source is there and reading the field from it gives a
  value other than undefined. \<open>resolve\<close> is the specification's rule: try \<open>contexts\<close>,
  \<open>extra\<close>, \<open>context\<close> and the event itself, in this order, and take the value of the first
  source that defines the field; \<open>JUndefined\<close> when none does.
\<close>

definition source_defines :: "json \<Rightarrow> string \<Rightarrow> bool" where
  "source_defines source field = (truthy source \<and> get_prop source field \<noteq> JUndefined)"

definition resolve :: "json \<Rightarrow> string \<Rightarrow> json" where
  "resolve event field =
     (if source_defines (get_prop event ''contexts'') field then get_prop (get_prop event ''contexts'') field
      else if source_defines (get_prop event ''extra'') field then get_prop (get_prop event ''extra'') field
      else if source_defines (get_prop event ''context'') field then get_prop (get_prop event ''context'') field
      else if source_defines event field then get_prop event field
      else JUndefined)"

text \<open>
  The record the loop builds for one event does not depend on the sets collected so far;
  \<open>event_record\<close> names it. \<open>collected\<close> says when the loop inserts an event's value for
  a field into the field's set: the field is requested, the record does not hold a defined
  value under that name yet, and some source defines the field.
\<close>

definition event_record :: "string list \<Rightarrow> json \<Rightarrow> obj" where
  "event_record extract_fields event = fst (extract_event extract_fields event Map.empty)"


text \<open>
  The events the properties of the extraction are about: an event is an object, each of
  its \<open>contexts\<close>, \<open>extra\<close> and \<open>context\<close> is an object or is falsy (missing, null), and
  the members of these four sources are values that \<^verbatim>\<open>String\<close> prints. On other events the
  handler throws (a null event, a member that does not print) or reads members that the
  model of a property read does not cover (a source that is a string, a number, an array).
\<close>

fun is_object :: "json \<Rightarrow> bool" where
  "is_object (JObj kvs) = True"
| "is_object v = False"

definition map_or_falsy :: "json \<Rightarrow> bool" where
  "map_or_falsy v = (is_object v \<or> \<not> truthy v)"

definition printable_members :: "json \<Rightarrow> bool" where
  "printable_members source = list_all (\<lambda>member. printable (snd member)) (own_entries source)"

definition shaped_event :: "json \<Rightarrow> bool" where
  "shaped_event event =
     (is_object event \<and> map_or_falsy (get_prop event ''contexts'')
      \<and> map_or_falsy (get_prop event ''extra'') \<and> map_or_falsy (get_prop event ''context'')
      \<and> printable_members event \<and> printable_members (get_prop event ''contexts'')
      \<and> printable_members (get_prop event ''extra'')
      \<and> printable_members (get_prop event ''context''))"



section \<open>SentryApiClient\<close>

text \<open>
  A thrown value is an \<^verbatim>\<open>Error\<close> with its message. A computation that may throw returns
  \<open>Inl\<close> of the error or \<open>Inr\<close> of its value. The network is the argument \<open>fetch\<close>: given
  the requests made so far and a request, it tells whether the promise is rejected or
  which response arrives. Every client function takes the log of requests made so far and
  returns it extended by the requests it made.
\<close>

datatype js_error = Error string

fun message :: "js_error \<Rightarrow> string" where
  "message (Error m) = m"

record Response =
  response_ok :: bool
  response_status :: nat
  response_statusText :: string
  response_text :: "js_error + string"
  response_json :: "js_error + json"

record RequestInit =
  init_method :: string
  init_body :: "string option"
  init_headers :: "(string \<times> string) list option"

record Request =
  request_url :: string
  request_method :: string
  request_body :: "string option"
  request_headers :: "(string \<times> string) list"

type_synonym fetch = "Request list \<Rightarrow> Request \<Rightarrow> js_error + Response"

record SentryApiClient =
  baseUrl :: string
  authToken :: string

definition build_request :: "SentryApiClient \<Rightarrow> string \<Rightarrow> RequestInit \<Rightarrow> Request" where
  "build_request client endpoint options =
     (let url = baseUrl client @ ''/api/0'' @ endpoint;
          headers = [(''Authorization'', ''Bearer '' @ authToken client),
                     (''Content-Type'', ''application/json'')];
          headers = (case init_headers options of
                       None \<Rightarrow> headers
                     | Some hs \<Rightarrow> foldl (\<lambda>t (k, v). AList.update k v t) headers hs)
      in \<lparr>request_url = url, request_method = init_method options,
          request_body = init_body options, request_headers = headers\<rparr>)"

definition makeRequest ::
  "SentryApiClient \<Rightarrow> fetch \<Rightarrow> string \<Rightarrow> RequestInit \<Rightarrow> Request list
     \<Rightarrow> (js_error + Response) \<times> Request list" where
  "makeRequest client fetch endpoint options log =
     (let request = build_request client endpoint options
      in (fetch log request, log @ [request]))"

definition get_options :: RequestInit where
  "get_options = \<lparr>init_method = ''GET'', init_body = None, init_headers = None\<rparr>"

definition get ::
  "SentryApiClient \<Rightarrow> fetch \<Rightarrow> string \<Rightarrow> Request list \<Rightarrow> (js_error + json) \<times> Request list" where
  "get client fetch endpoint log =
     (case makeRequest client fetch endpoint get_options log of
        (Inl error, log) \<Rightarrow> (Inl error, log)
      | (Inr response, log) \<Rightarrow>
          if \<not> response_ok response then
            (case response_text response of
               Inl error \<Rightarrow> (Inl error, log)
             | Inr errorText \<Rightarrow>
                 (Inl (Error (''API request failed: '' @ show_nat (response_status response) @
                              '' '' @ response_statusText response @ '' - '' @ errorText)),
                  log))
          else (response_json response, log))"

definition getProjects ::
  "SentryApiClient \<Rightarrow> fetch \<Rightarrow> string \<Rightarrow> Request list \<Rightarrow> (js_error + json) \<times> Request list" where
  "getProjects client fetch organizationSlug =
     get client fetch (''/organizations/'' @ organizationSlug @ ''/projects/'')"

text \<open>The handlers call \<open>getProjectIssues\<close> without its optional query.\<close>

definition getProjectIssues ::
  "SentryApiClient \<Rightarrow> fetch \<Rightarrow> string \<Rightarrow> string \<Rightarrow> Request list
     \<Rightarrow> (js_error + json) \<times> Request list" where
  "getProjectIssues client fetch organizationSlug projectSlug =
     get client fetch (''/projects/'' @ organizationSlug @ ''/'' @ projectSlug @ ''/issues/'')"

definition getIssue ::
  "SentryApiClient \<Rightarrow> fetch \<Rightarrow> string \<Rightarrow> string \<Rightarrow> Request list
     \<Rightarrow> (js_error + json) \<times> Request list" where
  "getIssue client fetch organizationSlug issueId =
     get client fetch (''/organizations/'' @ organizationSlug @ ''/issues/'' @ issueId @ ''/'')"

definition getIssueEvents ::
  "SentryApiClient \<Rightarrow> fetch \<Rightarrow> string \<Rightarrow> string \<Rightarrow> bool \<Rightarrow> Request list
     \<Rightarrow> (js_error + json) \<times> Request list" where
  "getIssueEvents client fetch organizationSlug issueId full =
     (let endpoint = ''/issues/'' @ issueId @ ''/events/''
      in get client fetch (if full then endpoint @ ''?full=true'' else endpoint))"

definition resolveShortId ::
  "SentryApiClient \<Rightarrow> fetch \<Rightarrow> string \<Rightarrow> string \<Rightarrow> Request list
     \<Rightarrow> (js_error + json) \<times> Request list" where
  "resolveShortId client fetch organizationSlug shortId =
     get client fetch (''/organizations/'' @ organizationSlug @ ''/shortids/'' @ shortId @ ''/'')"

text \<open>
  A property read that throws on null and undefined, with the message of the runtime
  (Node.js).
\<close>

definition read_prop :: "json \<Rightarrow> string \<Rightarrow> js_error + json" where
  "read_prop v k =
     (if nullish v
      then Inl (Error (''Cannot read properties of '' @ toStr v @ '' (reading '' @
                       [CHR 0x27] @ k @ [CHR 0x27] @ '')''))
      else Inr (get_prop v k))"

definition bindE :: "js_error + 'a \<Rightarrow> ('a \<Rightarrow> js_error + 'b) \<Rightarrow> js_error + 'b" where
  "bindE m f = (case m of Inl error \<Rightarrow> Inl error | Inr x \<Rightarrow> f x)"

definition getIssueEvent ::
  "SentryApiClient \<Rightarrow> fetch \<Rightarrow> string \<Rightarrow> string \<Rightarrow> string \<Rightarrow> Request list
     \<Rightarrow> (js_error + json) \<times> Request list" where
  "getIssueEvent client fetch organizationSlug issueId eventId log =
     (case getIssue client fetch organizationSlug issueId log of
        (Inl error, log) \<Rightarrow> (Inl error, log)
      | (Inr issue, log) \<Rightarrow>
          (case bindE (read_prop issue ''project'') (\<lambda>project. read_prop project ''slug'') of
             Inl error \<Rightarrow> (Inl error, log)
           | Inr projectSlug \<Rightarrow>
               get client fetch
                 (''/projects/'' @ organizationSlug @ ''/'' @ toStr projectSlug @
                  ''/events/'' @ eventId @ ''/'') log))"

section \<open>ErrorHandler and the tool handlers\<close>

record TextContent =
  content_type :: string
  content_text :: string

record ToolResponse =
  content :: "TextContent list"
  isError :: bool

definition handleApiError :: "js_error \<Rightarrow> string \<Rightarrow> ToolResponse" where
  "handleApiError error ctxt =
     \<lparr>content = [\<lparr>content_type = ''text'',
                   content_text = ''Error in '' @ ctxt @ '': '' @ message error\<rparr>],
      isError = True\<rparr>"

text \<open>The value a handler returns when nothing was thrown; it has no error flag.\<close>

definition text_response :: "string \<Rightarrow> ToolResponse" where
  "text_response output =
     \<lparr>content = [\<lparr>content_type = ''text'', content_text = output\<rparr>], isError = False\<rparr>"

text \<open>
  The body of \<^verbatim>\<open>try\<close>, after the data has arrived, renders it; \<^verbatim>\<open>catch\<close> turns whatever
  was thrown into the error response of the tool.
\<close>

definition respond ::
  "string \<Rightarrow> (json \<Rightarrow> js_error + string) \<Rightarrow> (js_error + json) \<times> Request list
     \<Rightarrow> ToolResponse \<times> Request list" where
  "respond tool render outcome =
     (case outcome of
        (Inl error, log) \<Rightarrow> (handleApiError error tool, log)
      | (Inr data, log) \<Rightarrow>
          (case render data of
             Inl error \<Rightarrow> (handleApiError error tool, log)
           | Inr output \<Rightarrow> (text_response output, log)))"

text \<open>
  The formatters are applied to the payload as it arrived; the arguments \<open>formatProjects\<close>,
  \<open>formatIssues\<close>, ... stand for the formatter call of the handler on that payload, and
  throw where the payload does not have the shape the formatter reads.
\<close>

definition list_projects ::
  "SentryApiClient \<Rightarrow> fetch \<Rightarrow> (FormatOptions \<Rightarrow> json \<Rightarrow> js_error + string) \<Rightarrow>
   string \<Rightarrow> ViewType \<Rightarrow> FormatType \<Rightarrow> Request list \<Rightarrow> ToolResponse \<times> Request list" where
  "list_projects client fetch formatProjects organization_slug viewType formatType log =
     respond ''list_projects'' (formatProjects \<lparr>format = formatType, view = viewType\<rparr>)
       (getProjects client fetch organization_slug log)"

definition list_project_issues ::
  "SentryApiClient \<Rightarrow> fetch \<Rightarrow> (FormatOptions \<Rightarrow> json \<Rightarrow> string \<Rightarrow> js_error + string) \<Rightarrow>
   string \<Rightarrow> string \<Rightarrow> ViewType \<Rightarrow> FormatType \<Rightarrow> Request list
     \<Rightarrow> ToolResponse \<times> Request list" where
  "list_project_issues client fetch formatIssues organization_slug project_slug viewType formatType log =
     respond ''list_project_issues''
       (\<lambda>issues. formatIssues \<lparr>format = formatType, view = viewType\<rparr> issues project_slug)
       (getProjectIssues client fetch organization_slug project_slug log)"

text \<open>\<^verbatim>\<open>s.startsWith(p)\<close>, \<^verbatim>\<open>s.split(c)\<close> for a separator of one character, and the path
  segments \<^verbatim>\<open>pathname.split("/").filter((part) => part)\<close>. \<^verbatim>\<open>new URL(s).pathname\<close> is a
  built-in that throws on an invalid URL: the argument \<open>pathname\<close>.\<close>

definition startsWith :: "string \<Rightarrow> string \<Rightarrow> bool" where
  "startsWith s p = (take (length p) s = p)"

fun split_on :: "char \<Rightarrow> string \<Rightarrow> string list" where
  "split_on c [] = [[]]"
| "split_on c (x # xs) =
     (if x = c then [] # split_on c xs
      else (case split_on c xs of [] \<Rightarrow> [[x]] | part # parts \<Rightarrow> (x # part) # parts))"

definition path_parts :: "string \<Rightarrow> string list" where
  "path_parts p = filter (\<lambda>part. part \<noteq> []) (split_on (CHR ''/'') p)"

definition issue_id_of :: "(string \<Rightarrow> js_error + string) \<Rightarrow> string \<Rightarrow> js_error + string" where
  "issue_id_of pathname issue_id_or_url =
     (if startsWith issue_id_or_url ''http'' then
        (case pathname issue_id_or_url of
           Inl error \<Rightarrow> Inl error
         | Inr p \<Rightarrow>
             (let pathParts = path_parts p
              in if length pathParts \<ge> 4 \<and> pathParts ! 2 = ''issues'' then Inr (pathParts ! 3)
                 else Inr issue_id_or_url))
      else Inr issue_id_or_url)"

definition get_sentry_issue ::
  "SentryApiClient \<Rightarrow> fetch \<Rightarrow> (string \<Rightarrow> js_error + string) \<Rightarrow>
   (FormatOptions \<Rightarrow> json \<Rightarrow> js_error + string) \<Rightarrow>
   string \<Rightarrow> string \<Rightarrow> ViewType \<Rightarrow> FormatType \<Rightarrow> Request list
     \<Rightarrow> ToolResponse \<times> Request list" where
  "get_sentry_issue client fetch pathname formatIssueDetails issue_id_or_url organization_slug
       viewType formatType log =
     (case issue_id_of pathname issue_id_or_url of
        Inl error \<Rightarrow> (handleApiError error ''get_sentry_issue'', log)
      | Inr issueId \<Rightarrow>
          respond ''get_sentry_issue'' (formatIssueDetails \<lparr>format = formatType, view = viewType\<rparr>)
            (getIssue client fetch organization_slug issueId log))"

definition list_issue_events ::
  "SentryApiClient \<Rightarrow> fetch \<Rightarrow> (FormatOptions \<Rightarrow> json \<Rightarrow> string \<Rightarrow> js_error + string) \<Rightarrow>
   string \<Rightarrow> string \<Rightarrow> ViewType \<Rightarrow> FormatType \<Rightarrow> Request list
     \<Rightarrow> ToolResponse \<times> Request list" where
  "list_issue_events client fetch formatEvents organization_slug issue_id viewType formatType log =
     respond ''list_issue_events''
       (\<lambda>events. formatEvents \<lparr>format = formatType, view = viewType\<rparr> events (''Issue '' @ issue_id))
       (getIssueEvents client fetch organization_slug issue_id False log)"

definition short_id_output :: "FormatType \<Rightarrow> json \<Rightarrow> js_error + string" where
  "short_id_output formatType data =
     bindE (read_prop data ''shortId'') (\<lambda>shortId.
     bindE (read_prop data ''group'') (\<lambda>group.
     bindE (read_prop group ''title'') (\<lambda>title.
       if formatType = markdown then
         Inr (''# Issue Details: '' @ toStr shortId @ nl @ nl @
              ''## Issue Information'' @ nl @ nl @
              ''- **Title**: '' @ toStr title @ nl @
              ''- **Status**: '' @ toStr (get_prop group ''status'') @ nl @
              ''- **Level**: '' @ toStr (get_prop group ''level'') @ nl @
              ''- **Event Count**: '' @ toStr (get_prop group ''count'') @ nl @
              ''- **User Count**: '' @ toStr (get_prop group ''userCount'') @ nl @
              ''- **Permalink**: ['' @ toStr (get_prop group ''permalink'') @ '']('' @
                 toStr (get_prop group ''permalink'') @ '')'' @ nl)
       else
         Inr (''Issue Details: '' @ toStr shortId @ nl @ nl @
              ''Title: '' @ toStr title @ nl @
              ''Status: '' @ toStr (get_prop group ''status'') @ nl @
              ''Level: '' @ toStr (get_prop group ''level'') @ nl @
              ''Event Count: '' @ toStr (get_prop group ''count'') @ nl @
              ''User Count: '' @ toStr (get_prop group ''userCount'') @ nl @
              ''Permalink: '' @ toStr (get_prop group ''permalink'') @ nl))))"

definition resolve_short_id ::
  "SentryApiClient \<Rightarrow> fetch \<Rightarrow> string \<Rightarrow> string \<Rightarrow> FormatType \<Rightarrow> Request list
     \<Rightarrow> ToolResponse \<times> Request list" where
  "resolve_short_id client fetch organization_slug short_id formatType log =
     respond ''resolve_short_id'' (short_id_output formatType)
       (resolveShortId client fetch organization_slug short_id log)"

text \<open>
  The extraction handler. \<^verbatim>\<open>events.forEach\<close> throws unless the payload is an array, and
  \<^verbatim>\<open>event.id\<close> throws on an element that is null. \<^verbatim>\<open>JSON.stringify(result, null, 2)\<close> is the
  argument \<open>stringify_result\<close>.
\<close>

definition context_data_output ::
  "(extraction_result \<Rightarrow> string) \<Rightarrow> string list \<Rightarrow> json \<Rightarrow> js_error + string" where
  "context_data_output stringify_result extract_fields events =
     (case events of
        JArr es \<Rightarrow>
          (case find nullish es of
             Some event \<Rightarrow> bindE (read_prop event ''id'') (\<lambda>_. Inr [])
           | None \<Rightarrow> Inr (stringify_result (extract_context_data es extract_fields)))
      | _ \<Rightarrow>
          (if nullish events then bindE (read_prop events ''forEach'') (\<lambda>_. Inr [])
           else Inl (Error ''events.forEach is not a function'')))"

definition extract_issue_context_data ::
  "SentryApiClient \<Rightarrow> fetch \<Rightarrow> (extraction_result \<Rightarrow> string) \<Rightarrow>
   string \<Rightarrow> string \<Rightarrow> string list \<Rightarrow> Request list \<Rightarrow> ToolResponse \<times> Request list" where
  "extract_issue_context_data client fetch stringify_result organization_slug issue_id
       extract_fields log =
     respond ''extract_issue_context_data'' (context_data_output stringify_result extract_fields)
       (getIssueEvents client fetch organization_slug issue_id True log)"

text \<open>
  \<open>get_sentry_event\<close> reads the organization, the issue and the event from a URL; an
  invalid URL is caught there and leaves the three values as they were passed.
\<close>

definition event_url_parts ::
  "(string \<Rightarrow> js_error + string) \<Rightarrow> string \<Rightarrow> string \<times> string \<times> string
     \<Rightarrow> string \<times> string \<times> string" where
  "event_url_parts pathname issue_id_or_url given =
     (case given of (issueId, organizationSlug, extractedEventId) \<Rightarrow>
        if startsWith issue_id_or_url ''http'' then
          (case pathname issue_id_or_url of
             Inl error \<Rightarrow> (issueId, organizationSlug, extractedEventId)
           | Inr p \<Rightarrow>
               (let pathParts = path_parts p
                in if length pathParts \<ge> 2 \<and> pathParts ! 0 = ''organizations'' then
                     (if length pathParts \<ge> 4 \<and> pathParts ! 2 = ''issues''
                      then pathParts ! 3 else issueId,
                      pathParts ! 1,
                      if length pathParts \<ge> 6 \<and> pathParts ! 4 = ''events''
                      then pathParts ! 5 else extractedEventId)
                   else (issueId, organizationSlug, extractedEventId)))
        else (issueId, organizationSlug, extractedEventId))"

definition get_sentry_event ::
  "SentryApiClient \<Rightarrow> fetch \<Rightarrow> (string \<Rightarrow> js_error + string) \<Rightarrow>
   (FormatOptions \<Rightarrow> json \<Rightarrow> string \<Rightarrow> js_error + string) \<Rightarrow>
   string \<Rightarrow> string \<Rightarrow> string \<Rightarrow> ViewType \<Rightarrow> FormatType \<Rightarrow> Request list
     \<Rightarrow> ToolResponse \<times> Request list" where
  "get_sentry_event client fetch pathname formatEvent issue_id_or_url event_id organization_slug
       viewType formatType log =
     (case event_url_parts pathname issue_id_or_url (issue_id_or_url, organization_slug, event_id) of
        (issueId, organizationSlug, extractedEventId) \<Rightarrow>
          respond ''get_sentry_event''
            (\<lambda>event. formatEvent \<lparr>format = formatType, view = viewType\<rparr> event extractedEventId)
            (getIssueEvent client fetch organizationSlug issueId extractedEventId log))"

section \<open>Notions of the specification and example inputs\<close>

subsection \<open>Frame selection\<close>










subsection \<open>Example events\<close>

definition empty_event :: Event where
  "empty_event =
     \<lparr>event_title = JUndefined, event_metadata = JUndefined, event_platform = JUndefined,
      event_dateCreated = JUndefined, event_culprit = JUndefined, event_tags = None,
      event_context = JUndefined, event_contexts = JUndefined, event_extra = JUndefined,
      event_entries = None, event_user = JUndefined\<rparr>"

definition frame_with_vars :: "json \<Rightarrow> Frame" where
  "frame_with_vars vars =
     \<lparr>frame_filename = JStr ''app.js'', frame_lineNo = JNum 1, frame_function = JUndefined,
      frame_inApp = JBool True, frame_context = None, frame_vars = vars\<rparr>"

definition stacktrace_entry :: "Frame list \<Rightarrow> Entry" where
  "stacktrace_entry frames =
     \<lparr>entry_type = JStr ''stacktrace'', entry_data = Some \<lparr>data_frames = Some frames\<rparr>\<rparr>"


subsection \<open>The additional data as a map\<close>

text \<open>
  What one source contributes to a merge: its own properties other than \<^verbatim>\<open>__proto__\<close>
  (which \<^verbatim>\<open>Object.assign\<close> hands to the inherited setter), a later property overriding
  an earlier one of the same name; nothing when the source is missing or falsy.
  \<open>frame_vars_map\<close> is the contribution of the stack trace: the \<open>context\<close> variable of
  the last frame that has variables, then the \<open>context\<close> and the \<open>extra\<close> of its
  \<open>record\<close> variable.
\<close>

definition merged_from :: "json \<Rightarrow> string \<rightharpoonup> json" where
  "merged_from source =
     (if truthy source
      then map_of (rev (filter (\<lambda>kv. fst kv \<noteq> ''__proto__'') (own_entries source)))
      else Map.empty)"

definition frame_vars_map :: "Event \<Rightarrow> string \<rightharpoonup> json" where
  "frame_vars_map event =
     (case stacktraceFrames event of
        None \<Rightarrow> Map.empty
      | Some frames \<Rightarrow>
          (case frameWithVars frames of
             None \<Rightarrow> Map.empty
           | Some frame \<Rightarrow>
               merged_from (get_prop (frame_vars frame) ''context'') ++
               (let rec = get_prop (frame_vars frame) ''record''
                in if truthy rec \<and> typeof_object rec
                   then merged_from (get_prop rec ''context'') ++ merged_from (get_prop rec ''extra'')
                   else Map.empty)))"

subsection \<open>Upstream failures\<close>

text \<open>
  The error of a fetch outcome that is an upstream failure: the error the fetch was
  rejected with, or, for a response with a non-success status, the error the client throws
  (the one of reading the body, when that fails too). The uniform error response names the
  operation and carries the message. \<open>get_request\<close> is the request a GET of an endpoint
  sends.
\<close>

definition upstream_failure :: "js_error + Response \<Rightarrow> js_error option" where
  "upstream_failure outcome =
     (case outcome of
        Inl error \<Rightarrow> Some error
      | Inr response \<Rightarrow>
          if response_ok response then None
          else Some (case response_text response of
                       Inl error \<Rightarrow> error
                     | Inr errorText \<Rightarrow>
                         Error (''API request failed: '' @ show_nat (response_status response) @
                                '' '' @ response_statusText response @ '' - '' @ errorText)))"

definition error_flagged :: "string \<Rightarrow> string \<Rightarrow> ToolResponse" where
  "error_flagged operation msg =
     \<lparr>content = [\<lparr>content_type = ''text'',
                   content_text = ''Error in '' @ operation @ '': '' @ msg\<rparr>],
      isError = True\<rparr>"

definition get_request :: "SentryApiClient \<Rightarrow> string \<Rightarrow> Request" where
  "get_request client endpoint = build_request client endpoint get_options"

text \<open>A network that refuses every connection, and one that answers the first request and
  then reports that the service is down.\<close>

definition example_client :: SentryApiClient where
  "example_client = \<lparr>baseUrl = ''https://sentry.io'', authToken = ''token''\<rparr>"

definition refusing_fetch :: fetch where
  "refusing_fetch log request = Inl (Error ''connect ECONNREFUSED'')"

definition flaky_fetch :: fetch where
  "flaky_fetch log request =
     (if log = [] then
        Inr \<lparr>response_ok = True, response_status = 200, response_statusText = ''OK'',
             response_text = Inr [],
             response_json = Inr (JObj [(''project'', JObj [(''slug'', JStr ''backend'')])])\<rparr>
      else
        Inr \<lparr>response_ok = False, response_status = 503,
             response_statusText = ''Service Unavailable'',
             response_text = Inr ''down'', response_json = Inl (Error ''Unexpected token'')\<rparr>)"

definition no_pathname :: "string \<Rightarrow> js_error + string" where
  "no_pathname s = Inl (Error ''Invalid URL'')"

section \<open>Properties of the rendering primitives\<close>

lemma foldl_append_rows:
  "foldl (\<lambda>acc row. acc @ f row) init rows = init @ concat (map f rows)"
  by (induction rows arbitrary: init) simp_all

text \<open>
  Claim C6, as the code has it. In markdown mode \<open>createTable\<close> emits the pipe-delimited
  header row, then a separator row with one cell of dashes per header, then one
  pipe-delimited row per data row. In plain mode it emits only the data rows as lines of
  pipe-joined cells: there is no separator row, and the header row is not emitted either.
\<close>

theorem createTable_layout:
  "createTable \<lparr>format = markdown, view = v\<rparr> headers rows =
     ''| '' @ join '' | '' headers @ '' |'' @ nl @
     ''|'' @ join ''|'' (replicate (length headers) ''----'') @ ''|'' @ nl @
     concat (map (\<lambda>row. ''| '' @ join '' | '' row @ '' |'' @ nl) rows) @ nl
   \<and> createTable \<lparr>format = plain, view = v\<rparr> headers rows =
     concat (map (\<lambda>row. join '' | '' row @ nl) rows) @ nl"
  by (simp add: createTable_def isMarkdown_def Let_def foldl_append_rows map_replicate_const)

text \<open>
  Claim C6 as stated fails in plain mode: a table with headers A, B and one row 1, 2 renders
  as the single data line, and the output does not begin with the header row.
\<close>

theorem createTable_plain_no_header:
  "createTable \<lparr>format = plain, view = detailed\<rparr> [''A'', ''B''] [[''1'', ''2'']] = ''1 | 2'' @ nl @ nl
   \<and> take (length ''A | B'') (createTable \<lparr>format = plain, view = detailed\<rparr> [''A'', ''B''] [[''1'', ''2'']])
       \<noteq> ''A | B''"
  by (simp add: createTable_def isMarkdown_def)


section \<open>Properties of the context extraction\<close>

lemma get_prop_JObj:
  "get_prop (JObj kvs) k = (case map_of kvs k of Some x \<Rightarrow> x | None \<Rightarrow> inherited (JObj []) k)"
  by (cases "map_of kvs k") (simp_all add: own_prop_def inherited_def)

lemma get_prop_set_prop:
  "k \<noteq> ''__proto__'' \<Longrightarrow>
   get_prop (JObj (set_prop ed k v)) k' = (if k' = k then v else get_prop (JObj ed) k')"
  by (simp add: set_prop_def get_prop_JObj update_conv' del: get_prop.simps)

lemma undefined_not_proto:
  assumes "''__proto__'' \<notin> fst ` set ed" and "get_prop (JObj ed) k = JUndefined"
  shows "k \<noteq> ''__proto__''"
proof
  assume k: "k = ''__proto__''"
  from assms(1) have "map_of ed ''__proto__'' = None" by (simp add: map_of_eq_None_iff)
  then have "get_prop (JObj ed) ''__proto__'' = JObj []"
    by (simp add: get_prop_JObj inherited_def del: get_prop.simps)
  with assms(2) k show False by simp
qed

lemma set_prop_keys:
  "fst ` set (set_prop ed k v) = (if k = ''__proto__'' then fst ` set ed else insert k (fst ` set ed))"
  by (simp add: set_prop_def dom_update)

lemma extract_field_event:
  "extract_field (event_sources e) f (ed, u) =
     (if get_prop (JObj ed) f = JUndefined \<and> resolve e f \<noteq> JUndefined
      then (set_prop ed f (resolve e f), u(f \<mapsto> set_add (toStr (resolve e f)) (members u f)))
      else (ed, u))"
  by (auto simp add: event_sources_def resolve_def source_defines_def simp del: get_prop.simps)

lemma fold_fields_step:
  "fold (extract_field (event_sources e)) (x # xs) (ed, u) =
     (if get_prop (JObj ed) x = JUndefined \<and> resolve e x \<noteq> JUndefined
      then fold (extract_field (event_sources e)) xs
             (set_prop ed x (resolve e x),
              u(x \<mapsto> set_add (toStr (resolve e x)) (members u x)))
      else fold (extract_field (event_sources e)) xs (ed, u))"
  by (simp add: extract_field_event del: get_prop.simps)

lemma fold_fields_get:
  assumes "''__proto__'' \<notin> fst ` set ed"
  shows "get_prop (JObj (fst (fold (extract_field (event_sources e)) fs (ed, u)))) g =
     (if get_prop (JObj ed) g \<noteq> JUndefined then get_prop (JObj ed) g
      else if g \<in> set fs then resolve e g else JUndefined)"
  using assms
proof (induction fs arbitrary: ed u)
  case Nil
  then show ?case by simp
next
  case (Cons x xs)
  show ?case
  proof (cases "get_prop (JObj ed) x = JUndefined \<and> resolve e x \<noteq> JUndefined")
    case True
    with Cons.prems have x: "x \<noteq> ''__proto__''" by (blast dest: undefined_not_proto)
    then have keys: "''__proto__'' \<notin> fst ` set (set_prop ed x (resolve e x))"
      using Cons.prems by (simp add: set_prop_keys)
    have read: "get_prop (JObj (set_prop ed x (resolve e x))) g =
        (if g = x then resolve e x else get_prop (JObj ed) g)"
      using x by (rule get_prop_set_prop)
    have step: "fold (extract_field (event_sources e)) (x # xs) (ed, u) =
        fold (extract_field (event_sources e)) xs
          (set_prop ed x (resolve e x),
           u(x \<mapsto> set_add (toStr (resolve e x)) (members u x)))"
      using True by (simp add: extract_field_event del: get_prop.simps)
    show ?thesis
      unfolding step Cons.IH [OF keys] read using True
      by (auto simp del: get_prop.simps)
  next
    case False
    then have step: "fold (extract_field (event_sources e)) (x # xs) (ed, u) =
        fold (extract_field (event_sources e)) xs (ed, u)"
      by (auto simp add: extract_field_event simp del: get_prop.simps)
    show ?thesis
      unfolding step Cons.IH [OF Cons.prems] using False
      by (auto simp del: get_prop.simps)
  qed
qed


lemma fold_fields_fst_indep:
  "fst (fold (extract_field (event_sources e)) fs (ed, u)) =
   fst (fold (extract_field (event_sources e)) fs (ed, u'))"
proof (induction fs arbitrary: ed u u')
  case Nil
  then show ?case by simp
next
  case (Cons x xs)
  show ?case
    by (simp only: fold_fields_step) (simp add: Cons.IH del: get_prop.simps)
qed

lemma initial_keys: "''__proto__'' \<notin> fst ` set (initial_eventData event)"
  by (simp add: initial_eventData_def)

lemma extract_event_fst: "fst (extract_event fs e u) = event_record fs e"
  unfolding extract_event_def event_record_def by (rule fold_fields_fst_indep)

lemma event_record_get:
  "get_prop (JObj (event_record fs e)) g =
     (if get_prop (JObj (initial_eventData e)) g \<noteq> JUndefined
      then get_prop (JObj (initial_eventData e)) g
      else if g \<in> set fs then resolve e g else JUndefined)"
  unfolding event_record_def extract_event_def by (rule fold_fields_get [OF initial_keys])


lemma hasData_iff:
  "hasData fs (event_record fs e) \<longleftrightarrow>
     (\<exists>f \<in> set fs. get_prop (JObj (initial_eventData e)) f \<noteq> JUndefined \<or> resolve e f \<noteq> JUndefined)"
  by (auto simp add: hasData_def list_ex_iff event_record_get simp del: get_prop.simps)

lemma process_event_eq:
  "process_event fs e (xd, u) =
     (if hasData fs (event_record fs e) then xd @ [event_record fs e] else xd,
      snd (extract_event fs e u))"
proof -
  obtain ed u' where eu: "extract_event fs e u = (ed, u')" by (cases "extract_event fs e u")
  then have "ed = event_record fs e" using extract_event_fst [of fs e u] by simp
  with eu show ?thesis by (simp add: process_event_def)
qed

lemma fold_events_fst:
  "fst (fold (process_event fs) es (xd, u)) = xd @ filter (hasData fs) (map (event_record fs) es)"
  by (induction es arbitrary: xd u) (simp_all add: process_event_eq)





lemma extracted_data_char:
  "extracted_data (extract_context_data es fs) = filter (hasData fs) (map (event_record fs) es)"
  "total_events (extract_context_data es fs) = length es"
  "events_with_data (extract_context_data es fs) = length (filter (hasData fs) (map (event_record fs) es))"
  by (simp_all add: extract_context_data_def Let_def case_prod_beta fold_events_fst)





text \<open>
  A requested name that the record inherits is never assigned either: \<open>contexts\<close> defines
  \<^verbatim>\<open>toString\<close>, the record gets no such key and reads the inherited function under it.
\<close>

lemma inherited_name_not_assigned:
  "resolve (JObj [(''id'', JStr ''e1''), (''contexts'', JObj [(''toString'', JStr ''x'')])])
      ''toString'' = JStr ''x''
   \<and> fst (extract_event [''toString'']
        (JObj [(''id'', JStr ''e1''), (''contexts'', JObj [(''toString'', JStr ''x'')])])
        Map.empty) = [(''event_id'', JStr ''e1''), (''timestamp'', JUndefined)]
   \<and> get_prop (JObj (fst (extract_event [''toString'']
        (JObj [(''id'', JStr ''e1''), (''contexts'', JObj [(''toString'', JStr ''x'')])])
        Map.empty))) ''toString'' = JNative ''toString''"
  by (simp add: resolve_def source_defines_def own_prop_def inherited_def
      object_prototype_names_def extract_event_def event_sources_def initial_eventData_def)

lemma length_filter_eq_iff: "length (filter P xs) = length xs \<longleftrightarrow> (\<forall>x \<in> set xs. P x)"
proof (induction xs)
  case Nil
  then show ?case by simp
next
  case (Cons x xs)
  have le: "length (filter P xs) \<le> length xs" by (rule length_filter_le)
  show ?case
  proof (cases "P x")
    case True
    with Cons show ?thesis by simp
  next
    case False
    from le have "length (filter P xs) \<noteq> Suc (length xs)" by arith
    with False show ?thesis by simp
  qed
qed




text \<open>
  Claim C8, as the code has it. Take events that are objects whose \<open>contexts\<close>, \<open>extra\<close>
  and \<open>context\<close> are objects or missing and whose members print (\<open>shaped_event\<close>), and a
  field list without the name \<^verbatim>\<open>__proto__\<close>.
  \<open>events_with_data\<close> is at most \<open>total_events\<close>, and they are equal exactly when every
  event has a requested name under which its record reads as defined: a field that one of
  the sources defines, the \<open>event_id\<close> or \<open>timestamp\<close> the record starts with, or a name
  the record inherits from \<^verbatim>\<open>Object.prototype\<close>.
\<close>

theorem events_with_data_bound:
  assumes "list_all shaped_event events"
    and "''__proto__'' \<notin> set extract_fields"
  shows "events_with_data (extract_context_data events extract_fields)
     \<le> total_events (extract_context_data events extract_fields)
   \<and> (events_with_data (extract_context_data events extract_fields)
        = total_events (extract_context_data events extract_fields)
      \<longleftrightarrow> (\<forall>event \<in> set events. \<exists>field \<in> set extract_fields.
             get_prop (JObj (initial_eventData event)) field \<noteq> JUndefined
             \<or> resolve event field \<noteq> JUndefined))"
proof -
  let ?rs = "map (event_record extract_fields) events"
  have "length (filter (hasData extract_fields) ?rs) \<le> length ?rs" by (rule length_filter_le)
  moreover have "length (filter (hasData extract_fields) ?rs) = length ?rs
      \<longleftrightarrow> (\<forall>event \<in> set events. hasData extract_fields (event_record extract_fields event))"
    by (simp only: length_filter_eq_iff) simp
  ultimately show ?thesis
    by (simp only: extracted_data_char hasData_iff) simp
qed

text \<open>
  The theorem at the two events of the specification's scenario, which both resolve the
  field, and at two events of which one resolves nothing.
\<close>

theorem events_with_data_bound_witness:
  "events_with_data (extract_context_data
      [JObj [(''id'', JStr ''e1''), (''contexts'', JObj [(''roomId'', JStr ''42'')])],
       JObj [(''id'', JStr ''e2''), (''extra'', JObj [(''roomId'', JStr ''42'')])]]
      [''roomId'']) = 2
   \<and> total_events (extract_context_data
      [JObj [(''id'', JStr ''e1''), (''contexts'', JObj [(''roomId'', JStr ''42'')])],
       JObj [(''id'', JStr ''e2''), (''extra'', JObj [(''roomId'', JStr ''42'')])]]
      [''roomId'']) = 2
   \<and> events_with_data (extract_context_data
      [JObj [(''id'', JStr ''e1''), (''contexts'', JObj [(''roomId'', JStr ''42'')])],
       JObj [(''id'', JStr ''e2'')]]
      [''roomId''])
     \<noteq> total_events (extract_context_data
      [JObj [(''id'', JStr ''e1''), (''contexts'', JObj [(''roomId'', JStr ''42'')])],
       JObj [(''id'', JStr ''e2'')]]
      [''roomId''])"
proof -
  let ?both = "[JObj [(''id'', JStr ''e1''), (''contexts'', JObj [(''roomId'', JStr ''42'')])],
       JObj [(''id'', JStr ''e2''), (''extra'', JObj [(''roomId'', JStr ''42'')])]]"
  let ?one = "[JObj [(''id'', JStr ''e1''), (''contexts'', JObj [(''roomId'', JStr ''42'')])],
       JObj [(''id'', JStr ''e2'')]]"
  have shaped: "list_all shaped_event ?both" "list_all shaped_event ?one"
    by (simp_all add: shaped_event_def map_or_falsy_def printable_members_def own_prop_def inherited_def
        object_prototype_names_def)
  have total: "total_events (extract_context_data ?both [''roomId'']) = 2"
    by (simp add: extracted_data_char)
  have all: "\<forall>event \<in> set ?both. \<exists>field \<in> set [''roomId''].
         get_prop (JObj (initial_eventData event)) field \<noteq> JUndefined
         \<or> resolve event field \<noteq> JUndefined"
    by (simp add: resolve_def source_defines_def own_prop_def inherited_def
        object_prototype_names_def)
  have not_all: "\<not> (\<forall>event \<in> set ?one. \<exists>field \<in> set [''roomId''].
         get_prop (JObj (initial_eventData event)) field \<noteq> JUndefined
         \<or> resolve event field \<noteq> JUndefined)"
    by (simp add: initial_eventData_def resolve_def source_defines_def own_prop_def
        inherited_def object_prototype_names_def)
  from events_with_data_bound [of ?both "[''roomId'']"] shaped(1) all total
  have "events_with_data (extract_context_data ?both [''roomId'']) = 2
      \<and> total_events (extract_context_data ?both [''roomId'']) = 2"
    by simp
  moreover from events_with_data_bound [of ?one "[''roomId'']"] shaped(2) not_all
  have "events_with_data (extract_context_data ?one [''roomId''])
      \<noteq> total_events (extract_context_data ?one [''roomId''])"
    by simp
  ultimately show ?thesis by simp
qed

text \<open>
  Claim C8 as stated fails when \<open>event_id\<close> is requested: the only event is counted as
  having data although no source defines the field.
\<close>

theorem all_events_counted_without_resolution:
  "events_with_data (extract_context_data [JObj [(''id'', JStr ''e1'')]] [''event_id'']) = 1
   \<and> total_events (extract_context_data [JObj [(''id'', JStr ''e1'')]] [''event_id'']) = 1
   \<and> resolve (JObj [(''id'', JStr ''e1'')]) ''event_id'' = JUndefined"
  by (simp add: extract_context_data_def process_event_def hasData_def resolve_def
      source_defines_def extract_event_def event_sources_def initial_eventData_def own_prop_def inherited_def object_prototype_names_def
      set_prop_def)

text \<open>
  A requested name that the record inherits counts every event as having data, although
  no source defines it and the record gets no key.
\<close>

lemma inherited_name_counts_every_event:
  "events_with_data (extract_context_data [JObj [(''id'', JStr ''e1'')], JObj [(''id'', JStr ''e2'')]]
      [''constructor'']) = 2
   \<and> resolve (JObj [(''id'', JStr ''e1'')]) ''constructor'' = JNative ''Object''
   \<and> extracted_data (extract_context_data [JObj [(''id'', JStr ''e1'')], JObj [(''id'', JStr ''e2'')]]
      [''constructor''])
     = [[(''event_id'', JStr ''e1''), (''timestamp'', JUndefined)],
        [(''event_id'', JStr ''e2''), (''timestamp'', JUndefined)]]"
  by (simp add: extract_context_data_def new_set_def process_event_def hasData_def resolve_def
      source_defines_def extract_event_def event_sources_def initial_eventData_def own_prop_def
      inherited_def object_prototype_names_def)





section \<open>Properties of the collection renderers and of formatSingleEvent\<close>

lemma show_nat_0: "show_nat 0 = ''0''"
  by (simp add: show_nat.simps)

text \<open>
  Claim C2, as the code has it. For every output mode and detail level, an empty issue
  collection and an empty event collection render as the header followed by the fixed
  message, and the only primitive invoked is \<open>createHeader\<close>. An empty project
  collection has no such message: the detailed view is the header, in markdown the table
  built from the column names alone, and the summary section with a total of 0; the summary
  view is the header, the list built from no items, and the total of 0.
\<close>

theorem empty_collections:
  "formatIssueList formatDetailedIssueList formatSummaryIssueList opts [] projectSlug =
     (createHeader opts (''Issues for Project: '' @ projectSlug) 1 @
      ''No issues found for this project.'' @ nl, [CreateHeader])
   \<and> formatEventList formatDetailedEventList formatSummaryEventList opts [] issueTitle =
     (createHeader opts (''Events for '' @ issueTitle) 1 @
      ''No events found for this issue.'' @ nl, [CreateHeader])
   \<and> formatData opts [] =
     (if isDetailed opts then
        (if isMarkdown opts then
           (createHeader opts ''Sentry Projects'' 1 @
            createTable opts
              [''ID'', ''Name'', ''Slug'', ''Platform'', ''Teams'', ''Environments'', ''Features''] [] @
            createHeader opts ''Summary'' 2 @ ''Total Projects: 0'' @ nl,
            [CreateHeader, CreateTable, CreateHeader])
         else
           (createHeader opts ''Sentry Projects'' 1 @
            createHeader opts ''Summary'' 2 @ ''Total Projects: 0'' @ nl,
            [CreateHeader, CreateHeader]))
      else
        (createHeader opts ''Sentry Projects'' 1 @ createList opts [] False @ ''Total Projects: 0'',
         [CreateHeader, CreateList]))"
  by (simp add: formatIssueList_def formatEventList_def formatData_def formatDetailed_def
      formatSummary_def bindT_def returnT_def createHeaderT_def createTableT_def createListT_def
      show_nat_0)

text \<open>
  Claim C2 as stated fails for projects: the summary view of no projects builds a list and
  the detailed markdown view builds a table, and neither prints a message that nothing was
  found.
\<close>

theorem empty_projects_build_list:
  "formatData \<lparr>format = markdown, view = summary\<rparr> [] =
     (''# Sentry Projects'' @ nl @ nl @ nl @ nl @ ''Total Projects: 0'', [CreateHeader, CreateList])
   \<and> formatData \<lparr>format = markdown, view = detailed\<rparr> [] =
     (''# Sentry Projects'' @ nl @ nl @
      ''| ID | Name | Slug | Platform | Teams | Environments | Features |'' @ nl @
      ''|----|----|----|----|----|----|----|'' @ nl @ nl @
      ''## Summary'' @ nl @ nl @ ''Total Projects: 0'' @ nl,
      [CreateHeader, CreateTable, CreateHeader])"
  by (simp add: formatData_def formatDetailed_def formatSummary_def bindT_def returnT_def
      createHeaderT_def createTableT_def createListT_def createHeader_def createTable_def
      createList_def isMarkdown_def isDetailed_def show_nat_0 eval_nat_numeral)

text \<open>Only tags of the whitelist pass the filter of the Environment section.\<close>

lemma filteredTags_whitelist:
  "tag \<in> set (filteredTags tags) \<Longrightarrow> \<exists>k \<in> set importantTags. tag_key tag = JStr k"
  by (cases "tag_key tag") (auto simp add: filteredTags_def)

text \<open>
  Claim C3 at an event whose only tag is not in the whitelist: the section is not omitted,
  its header is printed with nothing under it.
\<close>

theorem environment_header_without_tags:
  "environment_section \<lparr>format = markdown, view = detailed\<rparr>
     (empty_event\<lparr>event_tags := Some [\<lparr>tag_key = JStr ''browser'', tag_value = JStr ''Chrome''\<rparr>]\<rparr>)
   = ''## Environment'' @ nl @ nl
   \<and> formatSingleEvent stringify \<lparr>format = markdown, view = detailed\<rparr>
     (empty_event\<lparr>event_tags := Some [\<lparr>tag_key = JStr ''browser'', tag_value = JStr ''Chrome''\<rparr>]\<rparr>)
     ''e1''
   = ''# Event Details: e1'' @ nl @ nl @
     ''## Error Overview'' @ nl @ nl @
     ''- **Title**: N/A'' @ nl @
     ''- **Platform**: N/A'' @ nl @
     ''- **Date**: undefined'' @ nl @
     ''- **Culprit**: N/A'' @ nl @ nl @
     ''## Environment'' @ nl @ nl"
  by (simp add: formatSingleEvent_def overview_section_def environment_section_def
      additional_data_section_def collectAdditionalData_def stack_trace_section_def
      stacktraceFrames_def stacktraceEntry_def user_section_def
      empty_event_def filteredTags_def importantTags_def opt_chain_def js_or_def
      createHeader_def createList_def createBold_def isMarkdown_def object_keys_def
      eval_nat_numeral)

text \<open>
  The additional data, as a map, is the merge of \<open>context\<close>, \<open>contexts\<close>, \<open>extra\<close> and
  the frame variables, in this order and each time overriding; the frame variables are
  merged whatever the first three hold.
\<close>

lemma map_of_object_assign:
  "map_of (object_assign target source) =
     map_of target ++ map_of (rev (filter (\<lambda>kv. fst kv \<noteq> ''__proto__'') (own_entries source)))"
proof -
  have "map_of (foldl (\<lambda>t (k, v). set_prop t k v) target kvs) =
      map_of target ++ map_of (rev (filter (\<lambda>kv. fst kv \<noteq> ''__proto__'') kvs))"
    for kvs
  proof (induction kvs arbitrary: target)
    case Nil
    then show ?case by simp
  next
    case (Cons kv kvs)
    obtain k v where kv: "kv = (k, v)" by (cases kv)
    show ?case
    proof (cases "k = ''__proto__''")
      case True
      with Cons.IH [of target] kv show ?thesis by (simp add: set_prop_def)
    next
      case False
      have "map_of (AList.update k v target) ++
              map_of (rev (filter (\<lambda>kv. fst kv \<noteq> ''__proto__'') kvs))
          = map_of target ++
              (map_of (rev (filter (\<lambda>kv. fst kv \<noteq> ''__proto__'') kvs) @ [(k, v)]))"
        by (simp add: update_conv' fun_eq_iff map_add_def split: option.splits)
      with Cons.IH [of "AList.update k v target"] kv False show ?thesis
        by (simp add: set_prop_def)
    qed
  qed
  then show ?thesis by (simp add: object_assign_def)
qed

lemma assign_if_informative:
  "map_of (if truthy source \<and> length (object_keys source) > 0 then object_assign target source
           else target) = map_of target ++ merged_from source"
  by (auto simp add: map_of_object_assign merged_from_def object_keys_def)

lemma assign_if_truthy:
  "map_of (if truthy source then object_assign target source else target)
     = map_of target ++ merged_from source"
  by (simp add: map_of_object_assign merged_from_def)

lemma additional_data_merge:
  "map_of (collectAdditionalData event) =
     merged_from (event_context event) ++ merged_from (event_contexts event) ++
     merged_from (event_extra event) ++ frame_vars_map event"
proof -
  have frame: "map_of (assign_frame_vars target frame) =
      map_of target ++
      (merged_from (get_prop (frame_vars frame) ''context'') ++
       (let rec = get_prop (frame_vars frame) ''record''
        in if truthy rec \<and> typeof_object rec
           then merged_from (get_prop rec ''context'') ++ merged_from (get_prop rec ''extra'')
           else Map.empty))" for target frame
    by (simp add: assign_frame_vars_def Let_def assign_if_truthy del: get_prop.simps)
  let ?a1 = "if truthy (event_context event) \<and> length (object_keys (event_context event)) > 0
             then object_assign [] (event_context event) else []"
  let ?a2 = "if truthy (event_contexts event) \<and> length (object_keys (event_contexts event)) > 0
             then object_assign ?a1 (event_contexts event) else ?a1"
  let ?a3 = "if truthy (event_extra event) \<and> length (object_keys (event_extra event)) > 0
             then object_assign ?a2 (event_extra event) else ?a2"
  have m1: "map_of ?a1 = merged_from (event_context event)"
    using assign_if_informative [of "event_context event" "[]"] by simp
  have m2: "map_of ?a2 = map_of ?a1 ++ merged_from (event_contexts event)"
    by (rule assign_if_informative)
  have m3: "map_of ?a3 = map_of ?a2 ++ merged_from (event_extra event)"
    by (rule assign_if_informative)
  have primary: "map_of ?a3 = merged_from (event_context event) ++
      merged_from (event_contexts event) ++ merged_from (event_extra event)"
    by (simp only: m3 m2 m1)
  have unfold: "collectAdditionalData event =
      (case stacktraceFrames event of
         None \<Rightarrow> ?a3
       | Some frames \<Rightarrow>
           (case frameWithVars frames of
              None \<Rightarrow> ?a3
            | Some frame \<Rightarrow> assign_frame_vars ?a3 frame))"
    by (simp only: collectAdditionalData_def Let_def)
  show ?thesis
  proof (cases "stacktraceFrames event")
    case None
    then show ?thesis
      by (simp only: unfold frame_vars_map_def option.case primary map_add_empty)
  next
    case (Some frames)
    show ?thesis
    proof (cases "frameWithVars frames")
      case None
      with Some show ?thesis
        by (simp only: unfold frame_vars_map_def option.case primary map_add_empty)
    next
      case (Some frame')
      with \<open>stacktraceFrames event = Some frames\<close> show ?thesis
        by (simp only: unfold frame_vars_map_def option.case frame primary)
    qed
  qed
qed

text \<open>
  Claim C1 at an event whose \<open>extra\<close> is informative and whose last frame has variables
  with a \<open>context\<close>: the frame's values are merged in all the same, and overwrite the value
  \<open>extra\<close> gave for the same key.
\<close>

theorem frame_vars_override_extra:
  "collectAdditionalData
     (empty_event\<lparr>
        event_extra := JObj [(''roomId'', JStr ''42'')],
        event_entries := Some [stacktrace_entry
          [frame_with_vars (JObj [(''context'', JObj [(''roomId'', JStr ''7''), (''user'', JStr ''u1'')])])]]\<rparr>)
   = [(''roomId'', JStr ''7''), (''user'', JStr ''u1'')]
   \<and> additional_data_section stringify \<lparr>format = markdown, view = detailed\<rparr>
     (empty_event\<lparr>
        event_extra := JObj [(''roomId'', JStr ''42'')],
        event_entries := Some [stacktrace_entry
          [frame_with_vars (JObj [(''context'', JObj [(''roomId'', JStr ''7''), (''user'', JStr ''u1'')])])]]\<rparr>)
   = ''## Additional Data'' @ nl @ nl @ ''```json'' @ nl @
     stringify (JObj [(''roomId'', JStr ''7''), (''user'', JStr ''u1'')]) @ nl @
     ''```'' @ nl @ nl"
  by (simp add: additional_data_section_def collectAdditionalData_def empty_event_def
      stacktrace_entry_def frame_with_vars_def
      stacktraceFrames_def stacktraceEntry_def frameWithVars_def assign_frame_vars_def
      object_assign_def object_keys_def set_prop_def own_prop_def inherited_def object_prototype_names_def
      createHeader_def isMarkdown_def eval_nat_numeral)


















section \<open>Properties of the tool handlers\<close>

lemma get_failure:
  assumes "upstream_failure (fetch log (get_request client endpoint)) = Some error"
  shows "get client fetch endpoint log = (Inl error, log @ [get_request client endpoint])"
  using assms
  by (auto simp add: get_def makeRequest_def get_request_def upstream_failure_def Let_def
      split: sum.splits if_splits)

lemma get_success:
  assumes "fetch log (get_request client endpoint) = Inr response" and "response_ok response"
  shows "get client fetch endpoint log = (response_json response, log @ [get_request client endpoint])"
  using assms
  by (simp add: get_def makeRequest_def get_request_def Let_def)

lemma respond_failure:
  "respond tool render (Inl error, log) = (error_flagged tool (message error), log)"
  by (simp add: respond_def handleApiError_def error_flagged_def)

text \<open>
  Claim C9. For each of the seven operations: when the fetch of the operation is an
  upstream failure, the handler returns the error-flagged response with the operation's
  name and the error's message, and the log of requests has grown by that one request. For
  \<open>get_sentry_event\<close>, which fetches the issue and then the event, the same holds when the
  second fetch fails: the log then holds the two requests, each once.
\<close>

theorem upstream_failure_response:
  "(upstream_failure (fetch log (get_request client (''/organizations/'' @ organization_slug @ ''/projects/'')))
      = Some error
    \<longrightarrow> list_projects client fetch formatProjects organization_slug viewType formatType log
        = (error_flagged ''list_projects'' (message error),
           log @ [get_request client (''/organizations/'' @ organization_slug @ ''/projects/'')]))
   \<and> (upstream_failure (fetch log (get_request client
          (''/projects/'' @ organization_slug @ ''/'' @ project_slug @ ''/issues/''))) = Some error
    \<longrightarrow> list_project_issues client fetch formatIssues organization_slug project_slug viewType
          formatType log
        = (error_flagged ''list_project_issues'' (message error),
           log @ [get_request client
             (''/projects/'' @ organization_slug @ ''/'' @ project_slug @ ''/issues/'')]))
   \<and> (issue_id_of pathname issue_id_or_url = Inr issueId
      \<and> upstream_failure (fetch log (get_request client
          (''/organizations/'' @ organization_slug @ ''/issues/'' @ issueId @ ''/''))) = Some error
    \<longrightarrow> get_sentry_issue client fetch pathname formatIssueDetails issue_id_or_url organization_slug
          viewType formatType log
        = (error_flagged ''get_sentry_issue'' (message error),
           log @ [get_request client
             (''/organizations/'' @ organization_slug @ ''/issues/'' @ issueId @ ''/'')]))
   \<and> (upstream_failure (fetch log (get_request client (''/issues/'' @ issue_id @ ''/events/'')))
        = Some error
    \<longrightarrow> list_issue_events client fetch formatEvents organization_slug issue_id viewType formatType log
        = (error_flagged ''list_issue_events'' (message error),
           log @ [get_request client (''/issues/'' @ issue_id @ ''/events/'')]))
   \<and> (upstream_failure (fetch log (get_request client
          (''/organizations/'' @ organization_slug @ ''/shortids/'' @ short_id @ ''/''))) = Some error
    \<longrightarrow> resolve_short_id client fetch organization_slug short_id formatType log
        = (error_flagged ''resolve_short_id'' (message error),
           log @ [get_request client
             (''/organizations/'' @ organization_slug @ ''/shortids/'' @ short_id @ ''/'')]))
   \<and> (upstream_failure (fetch log (get_request client
          (''/issues/'' @ issue_id @ ''/events/?full=true''))) = Some error
    \<longrightarrow> extract_issue_context_data client fetch stringify_result organization_slug issue_id
          extract_fields log
        = (error_flagged ''extract_issue_context_data'' (message error),
           log @ [get_request client (''/issues/'' @ issue_id @ ''/events/?full=true'')]))
   \<and> (event_url_parts pathname issue_id_or_url (issue_id_or_url, organization_slug, event_id)
        = (issueId, organizationSlug, extractedEventId)
      \<and> upstream_failure (fetch log (get_request client
          (''/organizations/'' @ organizationSlug @ ''/issues/'' @ issueId @ ''/''))) = Some error
    \<longrightarrow> get_sentry_event client fetch pathname formatEvent issue_id_or_url event_id
          organization_slug viewType formatType log
        = (error_flagged ''get_sentry_event'' (message error),
           log @ [get_request client
             (''/organizations/'' @ organizationSlug @ ''/issues/'' @ issueId @ ''/'')]))
   \<and> (event_url_parts pathname issue_id_or_url (issue_id_or_url, organization_slug, event_id)
        = (issueId, organizationSlug, extractedEventId)
      \<and> fetch log (get_request client
          (''/organizations/'' @ organizationSlug @ ''/issues/'' @ issueId @ ''/'')) = Inr response
      \<and> response_ok response
      \<and> response_json response = Inr issue
      \<and> bindE (read_prop issue ''project'') (\<lambda>project. read_prop project ''slug'') = Inr projectSlug
      \<and> upstream_failure (fetch
            (log @ [get_request client
              (''/organizations/'' @ organizationSlug @ ''/issues/'' @ issueId @ ''/'')])
            (get_request client
              (''/projects/'' @ organizationSlug @ ''/'' @ toStr projectSlug @ ''/events/'' @
               extractedEventId @ ''/''))) = Some error
    \<longrightarrow> get_sentry_event client fetch pathname formatEvent issue_id_or_url event_id
          organization_slug viewType formatType log
        = (error_flagged ''get_sentry_event'' (message error),
           log @ [get_request client
                    (''/organizations/'' @ organizationSlug @ ''/issues/'' @ issueId @ ''/''),
                  get_request client
                    (''/projects/'' @ organizationSlug @ ''/'' @ toStr projectSlug @ ''/events/'' @
                     extractedEventId @ ''/'')]))"
proof (intro conjI impI)
  assume "upstream_failure (fetch log (get_request client (''/organizations/'' @ organization_slug @ ''/projects/''))) = Some error"
  then show "list_projects client fetch formatProjects organization_slug viewType formatType log
        = (error_flagged ''list_projects'' (message error),
           log @ [get_request client (''/organizations/'' @ organization_slug @ ''/projects/'')])"
    by (simp add: list_projects_def getProjects_def get_failure respond_failure)
next
  assume "upstream_failure (fetch log (get_request client
          (''/projects/'' @ organization_slug @ ''/'' @ project_slug @ ''/issues/''))) = Some error"
  then show "list_project_issues client fetch formatIssues organization_slug project_slug viewType
          formatType log
        = (error_flagged ''list_project_issues'' (message error),
           log @ [get_request client
             (''/projects/'' @ organization_slug @ ''/'' @ project_slug @ ''/issues/'')])"
    by (simp add: list_project_issues_def getProjectIssues_def get_failure respond_failure)
next
  assume "issue_id_of pathname issue_id_or_url = Inr issueId
      \<and> upstream_failure (fetch log (get_request client
          (''/organizations/'' @ organization_slug @ ''/issues/'' @ issueId @ ''/''))) = Some error"
  then show "get_sentry_issue client fetch pathname formatIssueDetails issue_id_or_url organization_slug
          viewType formatType log
        = (error_flagged ''get_sentry_issue'' (message error),
           log @ [get_request client
             (''/organizations/'' @ organization_slug @ ''/issues/'' @ issueId @ ''/'')])"
    by (simp add: get_sentry_issue_def getIssue_def get_failure respond_failure)
next
  assume "upstream_failure (fetch log (get_request client (''/issues/'' @ issue_id @ ''/events/'')))
        = Some error"
  then show "list_issue_events client fetch formatEvents organization_slug issue_id viewType formatType log
        = (error_flagged ''list_issue_events'' (message error),
           log @ [get_request client (''/issues/'' @ issue_id @ ''/events/'')])"
    by (simp add: list_issue_events_def getIssueEvents_def get_failure respond_failure)
next
  assume "upstream_failure (fetch log (get_request client
          (''/organizations/'' @ organization_slug @ ''/shortids/'' @ short_id @ ''/''))) = Some error"
  then show "resolve_short_id client fetch organization_slug short_id formatType log
        = (error_flagged ''resolve_short_id'' (message error),
           log @ [get_request client
             (''/organizations/'' @ organization_slug @ ''/shortids/'' @ short_id @ ''/'')])"
    by (simp add: resolve_short_id_def resolveShortId_def get_failure respond_failure)
next
  assume "upstream_failure (fetch log (get_request client
          (''/issues/'' @ issue_id @ ''/events/?full=true''))) = Some error"
  then show "extract_issue_context_data client fetch stringify_result organization_slug issue_id
          extract_fields log
        = (error_flagged ''extract_issue_context_data'' (message error),
           log @ [get_request client (''/issues/'' @ issue_id @ ''/events/?full=true'')])"
    by (simp add: extract_issue_context_data_def getIssueEvents_def get_failure respond_failure)
next
  assume "event_url_parts pathname issue_id_or_url (issue_id_or_url, organization_slug, event_id)
        = (issueId, organizationSlug, extractedEventId)
      \<and> upstream_failure (fetch log (get_request client
          (''/organizations/'' @ organizationSlug @ ''/issues/'' @ issueId @ ''/''))) = Some error"
  then show "get_sentry_event client fetch pathname formatEvent issue_id_or_url event_id
          organization_slug viewType formatType log
        = (error_flagged ''get_sentry_event'' (message error),
           log @ [get_request client
             (''/organizations/'' @ organizationSlug @ ''/issues/'' @ issueId @ ''/'')])"
    by (simp add: get_sentry_event_def getIssueEvent_def getIssue_def get_failure respond_failure)
next
  assume a: "event_url_parts pathname issue_id_or_url (issue_id_or_url, organization_slug, event_id)
        = (issueId, organizationSlug, extractedEventId)
      \<and> fetch log (get_request client
          (''/organizations/'' @ organizationSlug @ ''/issues/'' @ issueId @ ''/'')) = Inr response
      \<and> response_ok response
      \<and> response_json response = Inr issue
      \<and> bindE (read_prop issue ''project'') (\<lambda>project. read_prop project ''slug'') = Inr projectSlug
      \<and> upstream_failure (fetch
            (log @ [get_request client
              (''/organizations/'' @ organizationSlug @ ''/issues/'' @ issueId @ ''/'')])
            (get_request client
              (''/projects/'' @ organizationSlug @ ''/'' @ toStr projectSlug @ ''/events/'' @
               extractedEventId @ ''/''))) = Some error"
  let ?E1 = "''/organizations/'' @ organizationSlug @ ''/issues/'' @ issueId @ ''/''"
  let ?E2 = "''/projects/'' @ organizationSlug @ ''/'' @ toStr projectSlug @ ''/events/'' @
               extractedEventId @ ''/''"
  from a have url: "event_url_parts pathname issue_id_or_url (issue_id_or_url, organization_slug, event_id)
        = (issueId, organizationSlug, extractedEventId)"
    and r1: "fetch log (get_request client ?E1) = Inr response"
    and ok: "response_ok response"
    and js: "response_json response = Inr issue"
    and slug: "bindE (read_prop issue ''project'') (\<lambda>project. read_prop project ''slug'') = Inr projectSlug"
    and r2: "upstream_failure (fetch (log @ [get_request client ?E1]) (get_request client ?E2)) = Some error"
    by blast+
  have first: "get client fetch ?E1 log = (Inr issue, log @ [get_request client ?E1])"
    using get_success [of fetch log client ?E1 response] r1 ok by (simp only: js)
  have second: "get client fetch ?E2 (log @ [get_request client ?E1])
      = (Inl error, (log @ [get_request client ?E1]) @ [get_request client ?E2])"
    using get_failure [of fetch "log @ [get_request client ?E1]" client ?E2 error] r2 by blast
  have "getIssueEvent client fetch organizationSlug issueId extractedEventId log
      = (Inl error, (log @ [get_request client ?E1]) @ [get_request client ?E2])"
    by (simp only: getIssueEvent_def getIssue_def first prod.case sum.case slug second)
  then have "get_sentry_event client fetch pathname formatEvent issue_id_or_url event_id
          organization_slug viewType formatType log
        = (error_flagged ''get_sentry_event'' (message error),
           (log @ [get_request client ?E1]) @ [get_request client ?E2])"
    by (simp only: get_sentry_event_def url prod.case respond_failure)
  then show "get_sentry_event client fetch pathname formatEvent issue_id_or_url event_id
          organization_slug viewType formatType log
        = (error_flagged ''get_sentry_event'' (message error),
           log @ [get_request client ?E1, get_request client ?E2])"
    by simp
qed

lemma show_nat_503: "show_nat 503 = ''503''"
  by code_simp

text \<open>
  The theorem on a network that refuses every connection, and for the second fetch of
  \<open>get_sentry_event\<close> on a network that answers the issue and then reports 503.
\<close>

theorem upstream_failure_response_witness:
  "list_projects example_client refusing_fetch (\<lambda>opts data. Inr []) ''acme'' detailed markdown []
     = (error_flagged ''list_projects'' ''connect ECONNREFUSED'',
        [get_request example_client ''/organizations/acme/projects/''])
   \<and> list_project_issues example_client refusing_fetch (\<lambda>opts data slug. Inr []) ''acme'' ''web''
       detailed markdown []
     = (error_flagged ''list_project_issues'' ''connect ECONNREFUSED'',
        [get_request example_client ''/projects/acme/web/issues/''])
   \<and> get_sentry_issue example_client refusing_fetch no_pathname (\<lambda>opts data. Inr []) ''123''
       ''acme'' detailed markdown []
     = (error_flagged ''get_sentry_issue'' ''connect ECONNREFUSED'',
        [get_request example_client ''/organizations/acme/issues/123/''])
   \<and> list_issue_events example_client refusing_fetch (\<lambda>opts data title. Inr []) ''acme'' ''123''
       detailed markdown []
     = (error_flagged ''list_issue_events'' ''connect ECONNREFUSED'',
        [get_request example_client ''/issues/123/events/''])
   \<and> resolve_short_id example_client refusing_fetch ''acme'' ''WEB-1'' markdown []
     = (error_flagged ''resolve_short_id'' ''connect ECONNREFUSED'',
        [get_request example_client ''/organizations/acme/shortids/WEB-1/''])
   \<and> extract_issue_context_data example_client refusing_fetch (\<lambda>result. []) ''acme'' ''123''
       [''roomId''] []
     = (error_flagged ''extract_issue_context_data'' ''connect ECONNREFUSED'',
        [get_request example_client ''/issues/123/events/?full=true''])
   \<and> get_sentry_event example_client refusing_fetch no_pathname (\<lambda>opts data eventId. Inr [])
       ''123'' ''e1'' ''acme'' detailed markdown []
     = (error_flagged ''get_sentry_event'' ''connect ECONNREFUSED'',
        [get_request example_client ''/organizations/acme/issues/123/''])
   \<and> get_sentry_event example_client flaky_fetch no_pathname (\<lambda>opts data eventId. Inr [])
       ''123'' ''e1'' ''acme'' detailed markdown []
     = (error_flagged ''get_sentry_event'' ''API request failed: 503 Service Unavailable - down'',
        [get_request example_client ''/organizations/acme/issues/123/'',
         get_request example_client ''/projects/acme/backend/events/e1/''])"
proof -
  have refused: "upstream_failure (refusing_fetch log request) = Some (Error ''connect ECONNREFUSED'')"
    for log request
    by (simp add: upstream_failure_def refusing_fetch_def)
  have id: "issue_id_of no_pathname ''123'' = Inr ''123''"
    by (simp add: issue_id_of_def startsWith_def)
  have parts: "event_url_parts no_pathname ''123'' (''123'', ''acme'', ''e1'') = (''123'', ''acme'', ''e1'')"
    by (simp add: event_url_parts_def startsWith_def)
  have slug: "bindE (read_prop (JObj [(''project'', JObj [(''slug'', JStr ''backend'')])]) ''project'')
       (\<lambda>project. read_prop project ''slug'') = Inr (JStr ''backend'')"
    by (simp add: bindE_def read_prop_def own_prop_def inherited_def object_prototype_names_def)
  have down: "upstream_failure (flaky_fetch [r] request)
      = Some (Error ''API request failed: 503 Service Unavailable - down'')" for r request
    by (simp add: upstream_failure_def flaky_fetch_def show_nat_503)
  have ok: "flaky_fetch [] request =
      Inr \<lparr>response_ok = True, response_status = 200, response_statusText = ''OK'',
           response_text = Inr [],
           response_json = Inr (JObj [(''project'', JObj [(''slug'', JStr ''backend'')])])\<rparr>"
    for request
    by (simp add: flaky_fetch_def)
  note refusing = upstream_failure_response
    [where fetch = refusing_fetch and log = "[]" and client = example_client
       and error = "Error ''connect ECONNREFUSED''"
       and organization_slug = "''acme''" and project_slug = "''web''"
       and pathname = no_pathname and issue_id_or_url = "''123''" and issueId = "''123''"
       and issue_id = "''123''" and short_id = "''WEB-1''" and extract_fields = "[''roomId'']"
       and event_id = "''e1''" and organizationSlug = "''acme''" and extractedEventId = "''e1''"
       and formatProjects = "\<lambda>opts data. Inr []" and formatIssues = "\<lambda>opts data slug. Inr []"
       and formatIssueDetails = "\<lambda>opts data. Inr []"
       and formatEvents = "\<lambda>opts data title. Inr []" and stringify_result = "\<lambda>result. []"
       and formatEvent = "\<lambda>opts data eventId. Inr []"
       and viewType = detailed and formatType = markdown]
  note flaky = upstream_failure_response
    [where fetch = flaky_fetch and log = "[]" and client = example_client
       and error = "Error ''API request failed: 503 Service Unavailable - down''"
       and pathname = no_pathname and issue_id_or_url = "''123''" and issueId = "''123''"
       and organization_slug = "''acme''"
       and event_id = "''e1''" and organizationSlug = "''acme''" and extractedEventId = "''e1''"
       and formatEvent = "\<lambda>opts data eventId. Inr []"
       and viewType = detailed and formatType = markdown
       and response = "\<lparr>response_ok = True, response_status = 200, response_statusText = ''OK'',
           response_text = Inr [],
           response_json = Inr (JObj [(''project'', JObj [(''slug'', JStr ''backend'')])])\<rparr>"
       and issue = "JObj [(''project'', JObj [(''slug'', JStr ''backend'')])]"
       and projectSlug = "JStr ''backend''"]
  show ?thesis
    using refusing flaky by (simp add: refused id parts slug down ok)
qed


end
